theory Spec2Isabelle
  imports Main "HOL-Library.Word"
begin

section \<open>Strings\<close>

text \<open>
  A JavaScript string is a sequence of UTF-16 code units; \<open>length\<close> counts code units,
  as \<open>String.prototype.length\<close> does. Literals of the source are written \<open>js ''...''\<close>.
\<close>

type_synonym jstring = "16 word list"

definition js :: "string \<Rightarrow> jstring" where
  "js s = map (\<lambda>c. of_nat (of_char c)) s"

text \<open>
  \<open>String.prototype.trim\<close> removes the code units of ECMAScript's WhiteSpace and
  LineTerminator productions from both ends.
\<close>

definition js_space :: "16 word \<Rightarrow> bool" where
  "js_space c = (c \<in> {0x09, 0x0A, 0x0B, 0x0C, 0x0D, 0x20, 0xA0, 0x1680, 0x2028, 0x2029,
                       0x202F, 0x205F, 0x3000, 0xFEFF} \<or> (0x2000 \<le> c \<and> c \<le> 0x200A))"

definition trim :: "jstring \<Rightarrow> jstring" where
  "trim s = rev (dropWhile js_space (rev (dropWhile js_space s)))"

text \<open>
  \<open>String.prototype.toLowerCase\<close>, on the letters A to Z. The Unicode case mapping of code
  units outside ASCII is left out: no such code unit is mapped to an ASCII letter that
  the source compares with (the letters of \<open>en\<close>, \<open>openrouter\<close> and \<open>openai\<close>), so every
  comparison the source makes on a lowered string has the value it has here.
\<close>

definition lower_unit :: "16 word \<Rightarrow> 16 word" where
  "lower_unit c = (if 0x41 \<le> c \<and> c \<le> 0x5A then c + 0x20 else c)"

definition toLowerCase :: "jstring \<Rightarrow> jstring" where
  "toLowerCase s = map lower_unit s"

definition startsWith :: "jstring \<Rightarrow> jstring \<Rightarrow> bool" where
  "startsWith s p = (take (length p) s = p)"

section \<open>JavaScript values\<close>

text \<open>
  The values the handler computes with are those of JSON, and \<open>undefined\<close> for a missing
  property. A number \<open>JNum m e\<close> is the decimal \<open>m * 10 ^ e\<close>, kept exactly: the rounding of
  a literal to an IEEE double is not part of the model. An object is the list of its
  own properties in insertion order.
\<close>

datatype jsval =
    JUndefined
  | JNull
  | JBool bool
  | JNum int int
  | JStr jstring
  | JArr "jsval list"
  | JObj "(jstring \<times> jsval) list"

text \<open>A thrown exception: the error's \<open>name\<close> and its \<open>message\<close>.\<close>

datatype jserror = Thrown jstring jstring

definition TypeError :: "jstring \<Rightarrow> jserror" where
  "TypeError msg = Thrown (js ''TypeError'') msg"

definition Error :: "jstring \<Rightarrow> jserror" where
  "Error msg = Thrown (js ''Error'') msg"

text \<open>\<open>String(e)\<close> for an error object: \<open>Error.prototype.toString\<close>.\<close>

fun String_error :: "jserror \<Rightarrow> jstring" where
  "String_error (Thrown name msg) =
     (if name = [] then msg else if msg = [] then name else name @ js '': '' @ msg)"

text \<open>Exceptions propagate through sequenced computations.\<close>

definition bind :: "jserror + 'a \<Rightarrow> ('a \<Rightarrow> jserror + 'b) \<Rightarrow> jserror + 'b" where
  "bind r f = (case r of Inl e \<Rightarrow> Inl e | Inr x \<Rightarrow> f x)"

fun truthy :: "jsval \<Rightarrow> bool" where
  "truthy JUndefined = False"
| "truthy JNull = False"
| "truthy (JBool b) = b"
| "truthy (JNum m e) = (m \<noteq> 0)"
| "truthy (JStr s) = (s \<noteq> [])"
| "truthy (JArr xs) = True"
| "truthy (JObj kvs) = True"

text \<open>The operator \<^verbatim>\<open>a || b\<close>: the left operand when it is truthy, else the right one.\<close>

definition js_or :: "jsval \<Rightarrow> jsval \<Rightarrow> jsval" where
  "js_or a b = (if truthy a then a else b)"

text \<open>
  \<open>v?.k\<close> (and \<open>v.k\<close> where the source has made sure that \<open>v\<close> is truthy) for the
  property names the source reads: none of them is a property of a prototype, so a
  value other than an object with that own property gives \<open>undefined\<close>.
\<close>

fun js_get :: "jsval \<Rightarrow> jstring \<Rightarrow> jsval" where
  "js_get (JObj kvs) k = (case map_of kvs k of Some v \<Rightarrow> v | None \<Rightarrow> JUndefined)"
| "js_get v k = JUndefined"

text \<open>\<open>v?.[0]\<close>: the first element of an array, the first code unit of a string.\<close>

fun index0 :: "jsval \<Rightarrow> jsval" where
  "index0 (JArr xs) = (case xs of [] \<Rightarrow> JUndefined | x # _ \<Rightarrow> x)"
| "index0 (JStr s) = (case s of [] \<Rightarrow> JUndefined | c # _ \<Rightarrow> JStr [c])"
| "index0 (JObj kvs) = (case map_of kvs (js ''0'') of Some v \<Rightarrow> v | None \<Rightarrow> JUndefined)"
| "index0 v = JUndefined"

subsection \<open>Numbers as text\<close>

text \<open>The decimal \<open>m * 10 ^ e\<close> with the trailing zeros of \<open>m\<close> moved into the exponent.\<close>

function normal :: "int \<Rightarrow> int \<Rightarrow> int \<times> int" where
  "normal m e =
     (if m = 0 then (0, 0)
      else if m mod 10 = 0 then normal (m div 10) (e + 1)
      else (m, e))"
  by pat_completeness auto
termination
  by (relation "measure (\<lambda>(m, e). nat \<bar>m\<bar>)") auto

declare normal.simps [simp del]

definition digit_unit :: "nat \<Rightarrow> 16 word" where
  "digit_unit d = of_nat (48 + d)"

function digits_of :: "nat \<Rightarrow> jstring" where
  "digits_of n = (if n < 10 then [digit_unit n] else digits_of (n div 10) @ [digit_unit (n mod 10)])"
  by pat_completeness auto
termination
  by (relation "measure id") auto

declare digits_of.simps [simp del]

text \<open>
  \<open>Number::toString\<close> (radix 10) of ECMAScript, for the decimal \<open>m * 10 ^ e\<close>: with \<open>k\<close> the
  number of significant digits and \<open>n\<close> the position of the decimal point, plain digits
  up to 21 places, a leading \<open>0.\<close> down to seven places, exponent notation beyond.
\<close>

definition Number_toString :: "int \<Rightarrow> int \<Rightarrow> jstring" where
  "Number_toString m0 e0 =
     (case normal m0 e0 of (m, e) \<Rightarrow>
        if m = 0 then js ''0''
        else
          let ds = digits_of (nat \<bar>m\<bar>);
              k = int (length ds);
              n = k + e;
              x = n - 1;
              ex = js ''e'' @ (if x < 0 then js ''-'' else js ''+'') @ digits_of (nat \<bar>x\<bar>)
          in (if m < 0 then js ''-'' else []) @
             (if k \<le> n \<and> n \<le> 21 then ds @ replicate (nat (n - k)) 0x30
              else if 0 < n \<and> n \<le> 21 then take (nat n) ds @ js ''.'' @ drop (nat n) ds
              else if - 6 < n \<and> n \<le> 0 then js ''0.'' @ replicate (nat (- n)) 0x30 @ ds
              else if k = 1 then ds @ ex
              else take 1 ds @ js ''.'' @ drop 1 ds @ ex))"

subsection \<open>Conversion to string\<close>

text \<open>
  The abstract operation \<open>ToString\<close>. An array is joined with commas
  (\<open>Array.prototype.join\<close>: \<open>undefined\<close> and \<open>null\<close> elements give the empty string). An
  object made by \<open>JSON.parse\<close> inherits \<open>Object.prototype.toString\<close> unless it has an own
  property \<open>toString\<close>; that property then holds a JSON value, which cannot be called, and
  since \<open>valueOf\<close> gives no primitive either the conversion throws a TypeError.
\<close>

fun ToString :: "jsval \<Rightarrow> jserror + jstring"
  and join_elements :: "jsval list \<Rightarrow> jserror + jstring"
  and join_element :: "jsval \<Rightarrow> jserror + jstring"
where
  "ToString JUndefined = Inr (js ''undefined'')"
| "ToString JNull = Inr (js ''null'')"
| "ToString (JBool b) = Inr (if b then js ''true'' else js ''false'')"
| "ToString (JNum m e) = Inr (Number_toString m e)"
| "ToString (JStr s) = Inr s"
| "ToString (JArr xs) = join_elements xs"
| "ToString (JObj kvs) =
     (if map_of kvs (js ''toString'') = None then Inr (js ''[object Object]'')
      else Inl (TypeError (js ''Cannot convert object to primitive value'')))"
| "join_elements [] = Inr []"
| "join_elements [x] = join_element x"
| "join_elements (x # y # ys) =
     bind (join_element x) (\<lambda>a. bind (join_elements (y # ys)) (\<lambda>b. Inr (a @ js '','' @ b)))"
| "join_element JUndefined = Inr []"
| "join_element JNull = Inr []"
| "join_element v = ToString v"

text \<open>
  The method call \<open>v.toString()\<close>. On an object with an own property \<open>toString\<close> the call
  is a call of a value that is not a function; the message of the TypeError is the
  engine's own.
\<close>

fun toString :: "jsval \<Rightarrow> jserror + jstring" where
  "toString JUndefined = Inl (TypeError (js ''Cannot read properties of undefined (reading 'toString')''))"
| "toString JNull = Inl (TypeError (js ''Cannot read properties of null (reading 'toString')''))"
| "toString (JObj kvs) =
     (if map_of kvs (js ''toString'') = None then Inr (js ''[object Object]'')
      else Inl (TypeError (js ''toString is not a function'')))"
| "toString v = ToString v"

section \<open>JSON.parse\<close>

text \<open>
  The JSON grammar of ECMA-404, which \<open>JSON.parse\<close> accepts exactly, as a recursive
  descent over the code units. Every function returns the value read and the rest of
  the input, or \<open>None\<close> where \<open>JSON.parse\<close> throws a SyntaxError.
\<close>

definition json_ws :: "16 word \<Rightarrow> bool" where
  "json_ws c = (c = 0x20 \<or> c = 0x09 \<or> c = 0x0A \<or> c = 0x0D)"

definition skip_ws :: "jstring \<Rightarrow> jstring" where
  "skip_ws s = dropWhile json_ws s"

definition is_digit :: "16 word \<Rightarrow> bool" where
  "is_digit c = (0x30 \<le> c \<and> c \<le> 0x39)"

definition digits_value :: "jstring \<Rightarrow> nat" where
  "digits_value ds = foldl (\<lambda>a c. 10 * a + (unat c - 48)) 0 ds"

definition hex_value :: "16 word \<Rightarrow> nat option" where
  "hex_value c =
     (if 0x30 \<le> c \<and> c \<le> 0x39 then Some (unat c - 0x30)
      else if 0x41 \<le> c \<and> c \<le> 0x46 then Some (unat c - 0x41 + 10)
      else if 0x61 \<le> c \<and> c \<le> 0x66 then Some (unat c - 0x61 + 10)
      else None)"

definition hex4 :: "16 word \<Rightarrow> 16 word \<Rightarrow> 16 word \<Rightarrow> 16 word \<Rightarrow> 16 word option" where
  "hex4 a b c d =
     (case (hex_value a, hex_value b, hex_value c, hex_value d) of
        (Some x3, Some x2, Some x1, Some x0) \<Rightarrow> Some (of_nat (4096 * x3 + 256 * x2 + 16 * x1 + x0))
      | _ \<Rightarrow> None)"

text \<open>The code unit a single-character escape stands for: one of \<^verbatim>\<open>" \ / b f n r t\<close>.\<close>

definition unescape :: "16 word \<Rightarrow> 16 word option" where
  "unescape c =
     (if c = 0x22 \<or> c = 0x5C \<or> c = 0x2F then Some c
      else if c = 0x62 then Some 0x08
      else if c = 0x66 then Some 0x0C
      else if c = 0x6E then Some 0x0A
      else if c = 0x72 then Some 0x0D
      else if c = 0x74 then Some 0x09
      else None)"

text \<open>The characters of a string, after its opening quote, up to the closing one.\<close>

fun parse_chars :: "jstring \<Rightarrow> (jstring \<times> jstring) option" where
  "parse_chars [] = None"
| "parse_chars (c # cs) =
     (if c = 0x22 then Some ([], cs)
      else if c = 0x5C then
        (case cs of
           [] \<Rightarrow> None
         | d # ds \<Rightarrow>
             if d = 0x75 then
               (case ds of
                  h1 # h2 # h3 # h4 # r \<Rightarrow>
                    (case hex4 h1 h2 h3 h4 of
                       None \<Rightarrow> None
                     | Some u \<Rightarrow>
                         (case parse_chars r of None \<Rightarrow> None | Some (t, r') \<Rightarrow> Some (u # t, r')))
                | _ \<Rightarrow> None)
             else
               (case unescape d of
                  None \<Rightarrow> None
                | Some u \<Rightarrow>
                    (case parse_chars ds of None \<Rightarrow> None | Some (t, r') \<Rightarrow> Some (u # t, r'))))
      else if c < 0x20 then None
      else (case parse_chars cs of None \<Rightarrow> None | Some (t, r') \<Rightarrow> Some (c # t, r')))"

text \<open>
  A number: an optional minus, the integer part (\<open>0\<close>, or digits that do not start with
  \<open>0\<close>), an optional fraction, an optional exponent.
\<close>

definition parse_int_part :: "jstring \<Rightarrow> (jstring \<times> jstring) option" where
  "parse_int_part s =
     (case s of
        [] \<Rightarrow> None
      | c # cs \<Rightarrow>
          if c = 0x30 then Some ([c], cs)
          else if is_digit c then Some (c # takeWhile is_digit cs, dropWhile is_digit cs)
          else None)"

definition parse_frac :: "jstring \<Rightarrow> (jstring \<times> jstring) option" where
  "parse_frac s =
     (case s of
        [] \<Rightarrow> Some ([], s)
      | c # cs \<Rightarrow>
          if c = 0x2E then
            (if takeWhile is_digit cs = [] then None
             else Some (takeWhile is_digit cs, dropWhile is_digit cs))
          else Some ([], s))"

definition parse_exp_digits :: "int \<Rightarrow> jstring \<Rightarrow> (int \<times> jstring) option" where
  "parse_exp_digits sg s =
     (if takeWhile is_digit s = [] then None
      else Some (sg * int (digits_value (takeWhile is_digit s)), dropWhile is_digit s))"

definition parse_exp :: "jstring \<Rightarrow> (int \<times> jstring) option" where
  "parse_exp s =
     (case s of
        [] \<Rightarrow> Some (0, s)
      | c # cs \<Rightarrow>
          if c = 0x65 \<or> c = 0x45 then
            (case cs of
               [] \<Rightarrow> None
             | d # ds \<Rightarrow>
                 if d = 0x2B then parse_exp_digits 1 ds
                 else if d = 0x2D then parse_exp_digits (- 1) ds
                 else parse_exp_digits 1 cs)
          else Some (0, s))"

definition parse_unsigned :: "int \<Rightarrow> jstring \<Rightarrow> (jsval \<times> jstring) option" where
  "parse_unsigned sg s =
     (case parse_int_part s of
        None \<Rightarrow> None
      | Some (ip, s1) \<Rightarrow>
          (case parse_frac s1 of
             None \<Rightarrow> None
           | Some (fd, s2) \<Rightarrow>
               (case parse_exp s2 of
                  None \<Rightarrow> None
                | Some (x, s3) \<Rightarrow>
                    (case normal (sg * int (digits_value (ip @ fd))) (x - int (length fd)) of
                       (m, e) \<Rightarrow> Some (JNum m e, s3)))))"

definition parse_number :: "jstring \<Rightarrow> (jsval \<times> jstring) option" where
  "parse_number s =
     (case s of
        [] \<Rightarrow> None
      | c # cs \<Rightarrow> if c = 0x2D then parse_unsigned (- 1) cs else parse_unsigned 1 s)"

definition parse_literal :: "jstring \<Rightarrow> jsval \<Rightarrow> jstring \<Rightarrow> (jsval \<times> jstring) option" where
  "parse_literal word v s =
     (if take (length word) s = word then Some (v, drop (length word) s) else None)"

text \<open>
  A repeated key keeps its first position and takes the last value, as
  \<open>CreateDataProperty\<close> on an existing property does.
\<close>

fun put :: "(jstring \<times> jsval) list \<Rightarrow> jstring \<Rightarrow> jsval \<Rightarrow> (jstring \<times> jsval) list" where
  "put [] k v = [(k, v)]"
| "put ((k', v') # kvs) k v = (if k' = k then (k, v) # kvs else (k', v') # put kvs k v)"

definition object_of :: "(jstring \<times> jsval) list \<Rightarrow> (jstring \<times> jsval) list" where
  "object_of kvs = foldl (\<lambda>ob (k, v). put ob k v) [] kvs"

lemma parse_chars_shorter:
  "parse_chars s = Some (t, r) \<Longrightarrow> length r < length s"
proof (induction s arbitrary: t r rule: parse_chars.induct)
  case 1
  then show ?case by simp
next
  case (2 c cs)
  then show ?case
    by (fastforce split: if_splits list.splits option.splits)
qed

lemma skip_ws_shorter: "skip_ws s = c # r \<Longrightarrow> length r < length s"
proof -
  assume a: "skip_ws s = c # r"
  have "length (skip_ws s) \<le> length s"
    by (simp add: skip_ws_def length_dropWhile_le)
  then show ?thesis using a by simp
qed

text \<open>
  \<open>parse_elements\<close> reads the elements of an array from the first one to the closing
  bracket, \<open>parse_members\<close> the members of an object up to the closing brace. The tests
  \<open>length r < length s\<close> hold whenever they are reached (lemma \<open>parse_value_shorter\<close>
  below); they are what makes the recursion well-founded.
\<close>

function parse_value :: "jstring \<Rightarrow> (jsval \<times> jstring) option"
  and parse_elements :: "jstring \<Rightarrow> (jsval list \<times> jstring) option"
  and parse_members :: "jstring \<Rightarrow> ((jstring \<times> jsval) list \<times> jstring) option"
where
  "parse_value [] = None"
| "parse_value (c # cs) =
     (if c = 0x5B then
        (case skip_ws cs of
           [] \<Rightarrow> None
         | d # ds \<Rightarrow>
             if d = 0x5D then Some (JArr [], ds)
             else (case parse_elements (d # ds) of
                     None \<Rightarrow> None
                   | Some (vs, r) \<Rightarrow> Some (JArr vs, r)))
      else if c = 0x7B then
        (case skip_ws cs of
           [] \<Rightarrow> None
         | d # ds \<Rightarrow>
             if d = 0x7D then Some (JObj [], ds)
             else (case parse_members (d # ds) of
                     None \<Rightarrow> None
                   | Some (kvs, r) \<Rightarrow> Some (JObj (object_of kvs), r)))
      else if c = 0x22 then
        (case parse_chars cs of None \<Rightarrow> None | Some (t, r) \<Rightarrow> Some (JStr t, r))
      else if c = 0x74 then parse_literal (js ''true'') (JBool True) (c # cs)
      else if c = 0x66 then parse_literal (js ''false'') (JBool False) (c # cs)
      else if c = 0x6E then parse_literal (js ''null'') JNull (c # cs)
      else parse_number (c # cs))"
| "parse_elements s =
     (case parse_value s of
        None \<Rightarrow> None
      | Some (v, r) \<Rightarrow>
          if length r < length s then
            (case skip_ws r of
               [] \<Rightarrow> None
             | c # cs \<Rightarrow>
                 if c = 0x2C then
                   (case parse_elements (skip_ws cs) of
                      None \<Rightarrow> None
                    | Some (vs, r') \<Rightarrow> Some (v # vs, r'))
                 else if c = 0x5D then Some ([v], cs)
                 else None)
          else None)"
| "parse_members s =
     (case s of
        [] \<Rightarrow> None
      | q # cs \<Rightarrow>
          if q = 0x22 then
            (case parse_chars cs of
               None \<Rightarrow> None
             | Some (k, r) \<Rightarrow>
                 (case skip_ws r of
                    [] \<Rightarrow> None
                  | c # r1 \<Rightarrow>
                      if c = 0x3A then
                        (case parse_value (skip_ws r1) of
                           None \<Rightarrow> None
                         | Some (v, r2) \<Rightarrow>
                             if length r2 < length s then
                               (case skip_ws r2 of
                                  [] \<Rightarrow> None
                                | d # r3 \<Rightarrow>
                                    if d = 0x2C then
                                      (case parse_members (skip_ws r3) of
                                         None \<Rightarrow> None
                                       | Some (kvs, r') \<Rightarrow> Some ((k, v) # kvs, r'))
                                    else if d = 0x7D then Some ([(k, v)], r3)
                                    else None)
                             else None)
                      else None))
          else None)"
  by pat_completeness auto
termination
proof (relation "measure (\<lambda>x. case x of
          Inl s \<Rightarrow> 2 * length s
        | Inr (Inl s) \<Rightarrow> 2 * length s + 1
        | Inr (Inr s) \<Rightarrow> 2 * length s + 1)", goal_cases)
  case 1
  then show ?case by simp
next
  case (2 c cs d ds)
  then show ?case using skip_ws_shorter [of cs d ds] by simp
next
  case (3 c cs d ds)
  then show ?case using skip_ws_shorter [of cs d ds] by simp
next
  case (4 s)
  then show ?case by simp
next
  case (5 s x v r c cs)
  have "length (skip_ws cs) \<le> length cs"
    by (simp add: skip_ws_def length_dropWhile_le)
  then show ?case using 5 skip_ws_shorter [of r c cs] by simp
next
  case (6 s q cs x k r c r1)
  have "length (skip_ws r1) \<le> length r1"
    by (simp add: skip_ws_def length_dropWhile_le)
  then show ?case
    using 6 skip_ws_shorter [of r c r1] parse_chars_shorter [of cs k r] by simp
next
  case (7 s q cs x k r c r1 y v r2 d r3)
  have "length (skip_ws r3) \<le> length r3"
    by (simp add: skip_ws_def length_dropWhile_le)
  then show ?case using 7 skip_ws_shorter [of r2 d r3] by simp
qed

declare parse_elements.simps [simp del] parse_members.simps [simp del]

definition JSON_parse :: "jstring \<Rightarrow> jsval option" where
  "JSON_parse s =
     (case parse_value (skip_ws s) of
        None \<Rightarrow> None
      | Some (v, r) \<Rightarrow> if skip_ws r = [] then Some v else None)"

section \<open>JSON.stringify\<close>

definition hex_unit :: "nat \<Rightarrow> 16 word" where
  "hex_unit d = (if d < 10 then of_nat (0x30 + d) else of_nat (0x61 + (d - 10)))"

text \<open>The escape \<^verbatim>\<open>\uXXXX\<close> of a code unit, with lower-case hexadecimal digits.\<close>

definition unicode_escape :: "16 word \<Rightarrow> jstring" where
  "unicode_escape c =
     [0x5C, 0x75, hex_unit (unat c div 4096), hex_unit (unat c div 256 mod 16),
      hex_unit (unat c div 16 mod 16), hex_unit (unat c mod 16)]"

definition high_surrogate :: "16 word \<Rightarrow> bool" where
  "high_surrogate c = (0xD800 \<le> c \<and> c \<le> 0xDBFF)"

definition low_surrogate :: "16 word \<Rightarrow> bool" where
  "low_surrogate c = (0xDC00 \<le> c \<and> c \<le> 0xDFFF)"

text \<open>
  \<open>QuoteJSONString\<close>: the short escapes, \<^verbatim>\<open>\u00XX\<close> for the other control characters
  and \<^verbatim>\<open>\uXXXX\<close> for a surrogate that is not half of a pair.
\<close>

fun quote_units :: "jstring \<Rightarrow> jstring" where
  "quote_units [] = []"
| "quote_units (c # cs) =
     (if c = 0x08 then [0x5C, 0x62] @ quote_units cs
      else if c = 0x09 then [0x5C, 0x74] @ quote_units cs
      else if c = 0x0A then [0x5C, 0x6E] @ quote_units cs
      else if c = 0x0C then [0x5C, 0x66] @ quote_units cs
      else if c = 0x0D then [0x5C, 0x72] @ quote_units cs
      else if c = 0x22 then [0x5C, 0x22] @ quote_units cs
      else if c = 0x5C then [0x5C, 0x5C] @ quote_units cs
      else if c < 0x20 then unicode_escape c @ quote_units cs
      else if high_surrogate c then
        (case cs of
           [] \<Rightarrow> unicode_escape c
         | d # ds \<Rightarrow>
             if low_surrogate d then c # d # quote_units ds
             else unicode_escape c @ quote_units cs)
      else if low_surrogate c then unicode_escape c @ quote_units cs
      else c # quote_units cs)"

definition quote :: "jstring \<Rightarrow> jstring" where
  "quote s = [0x22] @ quote_units s @ [0x22]"

fun commas :: "jstring list \<Rightarrow> jstring" where
  "commas [] = []"
| "commas [t] = t"
| "commas (t # u # us) = t @ js '','' @ commas (u # us)"

text \<open>
  \<open>SerializeJSONProperty\<close> without indentation: \<open>None\<close> is \<open>undefined\<close>, for which an
  array writes \<open>null\<close> and an object leaves the property out. Properties are written in
  the order of the list; that ECMAScript enumerates keys that are array indices first
  is not part of the model.
\<close>

fun ser :: "jsval \<Rightarrow> jstring option"
  and ser_elements :: "jsval list \<Rightarrow> jstring list"
  and ser_members :: "(jstring \<times> jsval) list \<Rightarrow> jstring list"
where
  "ser JUndefined = None"
| "ser JNull = Some (js ''null'')"
| "ser (JBool b) = Some (if b then js ''true'' else js ''false'')"
| "ser (JNum m e) = Some (Number_toString m e)"
| "ser (JStr s) = Some (quote s)"
| "ser (JArr xs) = Some (js ''['' @ commas (ser_elements xs) @ js '']'')"
| "ser (JObj kvs) = Some (js ''{'' @ commas (ser_members kvs) @ js ''}'')"
| "ser_elements [] = []"
| "ser_elements (x # xs) = (case ser x of None \<Rightarrow> js ''null'' | Some t \<Rightarrow> t) # ser_elements xs"
| "ser_members [] = []"
| "ser_members ((k, v) # kvs) =
     (case ser v of
        None \<Rightarrow> ser_members kvs
      | Some t \<Rightarrow> (quote k @ js '':'' @ t) # ser_members kvs)"

text \<open>
  \<open>JSON.stringify(v)\<close>. The source applies it to object literals only, where the result
  is a string; for \<open>undefined\<close>, where JavaScript returns \<open>undefined\<close>, the text
  \<open>undefined\<close> stands in.
\<close>

definition JSON_stringify :: "jsval \<Rightarrow> jstring" where
  "JSON_stringify v = (case ser v of None \<Rightarrow> js ''undefined'' | Some t \<Rightarrow> t)"

section \<open>Rate limiter\<close>

text \<open>
  \<^verbatim>\<open>const RATE = { windowMs: 60_000, max: 40, buckets: new Map() };\<close>
  The map \<open>RATE.buckets\<close> is the only state that survives a request; it is passed in and
  returned. \<open>Date.now()\<close> is the parameter \<open>t\<close> (integer milliseconds).
\<close>

record bucket =
  start :: int
  count :: int

type_synonym buckets = "jstring \<rightharpoonup> bucket"

definition RATE_windowMs :: int where
  "RATE_windowMs = 60000"

definition RATE_max :: int where
  "RATE_max = 40"

definition rateLimit :: "int \<Rightarrow> jstring \<Rightarrow> buckets \<Rightarrow> bool \<times> buckets" where
  "rateLimit t ip bs =
     (let b0 = (case bs ip of Some b \<Rightarrow> b | None \<Rightarrow> \<lparr>start = t, count = 0\<rparr>);
          b1 = (if t - start b0 > RATE_windowMs then b0\<lparr>start := t, count := 0\<rparr> else b0);
          b2 = b1\<lparr>count := count b1 + 1\<rparr>
      in (count b2 \<le> RATE_max, bs(ip \<mapsto> b2)))"

text \<open>Successive calls of \<open>rateLimit\<close> for one client at the times \<open>ts\<close>, with their answers.\<close>

fun rateLimit_calls :: "int list \<Rightarrow> jstring \<Rightarrow> buckets \<Rightarrow> bool list \<times> buckets" where
  "rateLimit_calls [] ip bs = ([], bs)"
| "rateLimit_calls (t # ts) ip bs =
     (let (r, bs1) = rateLimit t ip bs;
          (rs, bs2) = rateLimit_calls ts ip bs1
      in (r # rs, bs2))"

text \<open>A window for \<open>ip\<close> opens at time \<open>t\<close>: no bucket yet, or the old window has elapsed.\<close>

definition window_opens :: "int \<Rightarrow> jstring \<Rightarrow> buckets \<Rightarrow> bool" where
  "window_opens t ip bs =
     (case bs ip of None \<Rightarrow> True | Some b \<Rightarrow> t - start b > RATE_windowMs)"

section \<open>Helpers of the gateway\<close>

definition MAX_BODY_CHARS :: nat where
  "MAX_BODY_CHARS = 250000"

text \<open>
  The operator \<^verbatim>\<open>||\<close> on a string that may be \<open>undefined\<close> (a header, an environment
  variable, the body of the event): \<open>undefined\<close> and the empty string are falsy.
\<close>

definition opt_or :: "jstring option \<Rightarrow> jstring option \<Rightarrow> jstring option" where
  "opt_or a b = (case a of None \<Rightarrow> b | Some s \<Rightarrow> if s = [] then b else a)"

definition str_or :: "jstring option \<Rightarrow> jstring \<Rightarrow> jstring" where
  "str_or a d = (case a of None \<Rightarrow> d | Some s \<Rightarrow> if s = [] then d else s)"

text \<open>The operator \<^verbatim>\<open>a && b\<close>.\<close>

definition js_and :: "jsval \<Rightarrow> jsval \<Rightarrow> jsval" where
  "js_and a b = (if truthy a then b else a)"

text \<open>The operator \<^verbatim>\<open>a ?? b\<close>.\<close>

definition js_coalesce :: "jsval \<Rightarrow> jsval \<Rightarrow> jsval" where
  "js_coalesce a b = (if a = JUndefined \<or> a = JNull then b else a)"

text \<open>\<^verbatim>\<open>function corsHeaders(origin)\<close>, lines 41-50.\<close>

definition corsHeaders :: "jstring option \<Rightarrow> (jstring \<times> jstring) list" where
  "corsHeaders origin =
     (let allow = str_or origin (js ''*'')
      in [(js ''Access-Control-Allow-Origin'', allow),
          (js ''Vary'', js ''Origin''),
          (js ''Access-Control-Allow-Headers'', js ''Content-Type, Authorization''),
          (js ''Access-Control-Allow-Methods'', js ''POST, OPTIONS'')])"

text \<open>\<^verbatim>\<open>function safeJsonParse(str)\<close>, lines 64-66: \<open>null\<close> where \<open>JSON.parse\<close> throws.\<close>

definition safeJsonParse :: "jstring \<Rightarrow> jsval" where
  "safeJsonParse str = (case JSON_parse str of Some v \<Rightarrow> v | None \<Rightarrow> JNull)"

text \<open>\<^verbatim>\<open>function clampString(s, max)\<close>, lines 68-72.\<close>

definition clampString :: "jsval \<Rightarrow> nat \<Rightarrow> jserror + jstring" where
  "clampString s mx =
     bind (toString (js_coalesce s (JStr [])))
       (\<lambda>x. if length x \<le> mx then Inr x else Inr (take mx x))"

section \<open>Prompt builder\<close>

text \<open>
  \<^verbatim>\<open>function buildPrompts(task, payload, meta)\<close>, lines 74-174. The Arabic texts of the
  source (lines 82, 87, 106, 111, 134, 139, 156 and 161) are outside ASCII; each is
  represented by a marker naming its line. No property below depends on the wording of
  a prompt, only on which of the two variants is chosen.
\<close>

record prompts =
  system :: jstring
  user :: jstring

definition panorama_system :: "jstring \<Rightarrow> jstring" where
  "panorama_system lang =
     (if lang = js ''ar'' then js ''(Arabic text of line 82)''
      else js ''You are a professional dental radiology assistant. Write a structured panoramic radiology report based on AI findings. Do not hallucinate. Output JSON only.'')"

definition panorama_instruction :: "jstring \<Rightarrow> jstring" where
  "panorama_instruction lang =
     (if lang = js ''ar'' then js ''(Arabic text of line 87)''
      else js ''Convert AI output into a professional report (Findings/Impression/Recommendations). If data is insufficient, state that explicitly.'')"

definition ceph_system :: "jstring \<Rightarrow> jstring" where
  "ceph_system lang =
     (if lang = js ''ar'' then js ''(Arabic text of line 106)''
      else js ''You are an orthodontic specialist. Propose an orthodontic treatment plan from cephalometric analyses. Output JSON only.'')"

definition ceph_instruction :: "jstring \<Rightarrow> jstring" where
  "ceph_instruction lang =
     (if lang = js ''ar'' then js ''(Arabic text of line 111)''
      else js ''Write a structured orthodontic plan: objectives, phases, appliance options, anchorage, risks/consent, follow-up. Ask for missing critical data.'')"

definition voice_system :: "jstring \<Rightarrow> jstring" where
  "voice_system lang =
     (if lang = js ''ar'' then js ''(Arabic text of line 134)''
      else js ''You are a radiology report editor. Turn dictated text into a structured report. Output JSON only.'')"

definition voice_instruction :: "jstring \<Rightarrow> jstring" where
  "voice_instruction lang =
     (if lang = js ''ar'' then js ''(Arabic text of line 139)''
      else js ''Polish the text and produce a professional report. Split into Findings/Impression/Recommendations.'')"

definition ask_system :: "jstring \<Rightarrow> jstring" where
  "ask_system lang =
     (if lang = js ''ar'' then js ''(Arabic text of line 156)''
      else js ''You are a dental radiology assistant. Answer scientifically and concisely. Ask for missing details. Output JSON only.'')"

definition ask_instruction :: "jstring \<Rightarrow> jstring" where
  "ask_instruction lang =
     (if lang = js ''ar'' then js ''(Arabic text of line 161)''
      else js ''Answer the question with practical points. Mention limits if relevant.'')"

text \<open>Line 75: the language, \<open>en\<close> or \<open>ar\<close>.\<close>

definition prompt_lang :: "jsval \<Rightarrow> jsval \<Rightarrow> jserror + jstring" where
  "prompt_lang payload meta =
     bind (toString (js_or (js_or (js_get meta (js ''lang'')) (js_get payload (js ''lang''))) (JStr (js ''ar''))))
       (\<lambda>l. Inr (if startsWith (toLowerCase l) (js ''en'') then js ''en'' else js ''ar''))"

text \<open>Lines 77-101.\<close>

definition panorama_prompts :: "jstring \<Rightarrow> jsval \<Rightarrow> jserror + prompts option" where
  "panorama_prompts lang payload =
     (let findings = js_or (js_or (js_get payload (js ''findings'')) (js_get payload (js ''items''))) (JArr []);
          summary = js_or (js_get payload (js ''summary'')) (JObj []);
          user_object = JObj
            [(js ''instruction'', JStr (panorama_instruction lang)),
             (js ''schema'', JObj
                [(js ''findings'', JStr (js ''string (multi-line)'')),
                 (js ''impression'', JStr (js ''string (multi-line)'')),
                 (js ''recommendations'', JStr (js ''string (multi-line)''))]),
             (js ''input'', JObj [(js ''findings'', findings), (js ''summary'', summary)])]
      in Inr (Some \<lparr>system = panorama_system lang, user = JSON_stringify user_object\<rparr>))"

text \<open>Lines 103-127.\<close>

definition ceph_prompts :: "jstring \<Rightarrow> jsval \<Rightarrow> jserror + prompts option" where
  "ceph_prompts lang payload =
     (let ceph = js_or (js_or (js_or (js_get payload (js ''ceph'')) (js_get payload (js ''measurements'')))
                   payload) (JObj []);
          user_object = JObj
            [(js ''instruction'', JStr (ceph_instruction lang)),
             (js ''schema'', JObj
                [(js ''diagnostic_summary'', JStr (js ''string'')),
                 (js ''problem_list'', JStr (js ''array of strings'')),
                 (js ''objectives'', JStr (js ''array of strings'')),
                 (js ''plan_phases'', JStr (js ''array of {name, steps[]}'')),
                 (js ''appliance_options'', JStr (js ''array of strings'')),
                 (js ''anchorage'', JStr (js ''string'')),
                 (js ''risks_and_consents'', JStr (js ''array of strings'')),
                 (js ''follow_up'', JStr (js ''array of strings''))]),
             (js ''input'', ceph)]
      in Inr (Some \<lparr>system = ceph_system lang, user = JSON_stringify user_object\<rparr>))"

text \<open>Lines 129-151.\<close>

definition voice_prompts :: "jstring \<Rightarrow> jsval \<Rightarrow> jserror + prompts option" where
  "voice_prompts lang payload =
     bind (toString (js_or (js_or (js_get payload (js ''transcript'')) (js_get payload (js ''text''))) (JStr [])))
       (\<lambda>transcript.
          bind (toString (js_or (js_get payload (js ''template'')) (JStr [])))
            (\<lambda>template.
               let user_object = JObj
                     [(js ''instruction'', JStr (voice_instruction lang)),
                      (js ''template'', JStr template),
                      (js ''schema'', JObj
                         [(js ''findings'', JStr (js ''string'')),
                          (js ''impression'', JStr (js ''string'')),
                          (js ''recommendations'', JStr (js ''string''))]),
                      (js ''input'', JStr transcript)]
               in Inr (Some \<lparr>system = voice_system lang, user = JSON_stringify user_object\<rparr>)))"

text \<open>Lines 153-171.\<close>

definition ask_prompts :: "jstring \<Rightarrow> jsval \<Rightarrow> jserror + prompts option" where
  "ask_prompts lang payload =
     bind (toString (js_or (js_or (js_get payload (js ''question'')) (js_get payload (js ''q''))) (JStr [])))
       (\<lambda>q.
          let user_object = JObj
                [(js ''instruction'', JStr (ask_instruction lang)),
                 (js ''schema'', JObj
                    [(js ''answer'', JStr (js ''string'')),
                     (js ''follow_up_questions'', JStr (js ''array of strings''))]),
                 (js ''input'', JStr q)]
          in Inr (Some \<lparr>system = ask_system lang, user = JSON_stringify user_object\<rparr>))"

text \<open>
  Lines 77-173: the branch of the task. The result \<open>Inr None\<close> is the \<open>null\<close> of line 173;
  \<open>Inl\<close> is a thrown exception.
\<close>

definition task_prompts :: "jstring \<Rightarrow> jstring \<Rightarrow> jsval \<Rightarrow> jserror + prompts option" where
  "task_prompts lang task payload =
     (if task = js ''panorama_json_to_report'' then panorama_prompts lang payload
      else if task = js ''ceph_treatment_planner'' then ceph_prompts lang payload
      else if task = js ''voice_to_report'' then voice_prompts lang payload
      else if task = js ''ask_radiology'' then ask_prompts lang payload
      else Inr None)"

definition buildPrompts :: "jstring \<Rightarrow> jsval \<Rightarrow> jsval \<Rightarrow> jserror + prompts option" where
  "buildPrompts task payload meta =
     bind (prompt_lang payload meta) (\<lambda>lang. task_prompts lang task payload)"

section \<open>Upstream client\<close>

text \<open>The environment variables the gateway reads; \<open>None\<close> is an unset variable.\<close>

record env =
  AI_PROVIDER :: "jstring option"
  OPENROUTER_API_KEY :: "jstring option"
  OPENROUTER_BASE_URL :: "jstring option"
  OPENAI_API_KEY :: "jstring option"
  OPENAI_BASE_URL :: "jstring option"
  MODEL_TEXT :: "jstring option"
  MODEL_TEXT_FALLBACK :: "jstring option"

text \<open>
  The network is outside the program. A request is answered with a status and a body
  text, or the \<open>await\<close> throws: a network error, a failure while the body is read, or
  the abort that \<open>fetchWithTimeout\<close> (lines 176-185) raises after \<open>DEFAULT_TIMEOUT_MS\<close>.
  Which of these happens, and when, is the network's choice.
\<close>

record fetch_request =
  url :: jstring
  authorization :: jstring
  content :: jstring

datatype fetch_outcome = Throws jserror | Responds int jstring

record chat_args = prompts +
  provider :: jstring
  model :: jstring
  temperature :: jsval

record upstream =
  raw :: jsval
  usage :: jsval

text \<open>
  The body of the two branches of \<open>callChatCompletion\<close> (lines 189-215 and 219-245),
  which differ in the variables they read: the key, the base URL, and the message for
  a missing key.
\<close>

definition chat_completion ::
  "jstring option \<Rightarrow> jstring \<Rightarrow> jstring \<Rightarrow> (fetch_request \<Rightarrow> fetch_outcome) \<Rightarrow> chat_args \<Rightarrow> jserror + upstream"
where
  "chat_completion apiKey baseUrl missing fetch a =
     (if str_or apiKey [] = [] then Inl (Error missing)
      else
        (case fetch
           \<lparr>url = baseUrl @ js ''/chat/completions'',
            authorization = js ''Bearer '' @ str_or apiKey [],
            content = JSON_stringify (JObj
              [(js ''model'', JStr (model a)),
               (js ''messages'', JArr
                  [JObj [(js ''role'', JStr (js ''system'')), (js ''content'', JStr (system a))],
                   JObj [(js ''role'', JStr (js ''user'')), (js ''content'', JStr (user a))]]),
               (js ''temperature'',
                  (if temperature a = JUndefined then JNum 2 (- 1) else temperature a))])\<rparr>
         of
           Throws e \<Rightarrow> Inl e
         | Responds status text \<Rightarrow>
             (let data = safeJsonParse text
              in if \<not> (200 \<le> status \<and> status \<le> 299) then
                   bind (ToString
                          (js_or
                            (js_and data
                              (js_or (js_or (js_get (js_get data (js ''error'')) (js ''message''))
                                            (js_get data (js ''error'')))
                                     (js_get data (js ''message''))))
                            (JStr (js ''Upstream error: '' @ Number_toString status 0))))
                     (\<lambda>msg. Inl (Error msg))
                 else
                   Inr \<lparr>raw = js_or (js_get (js_get (index0 (js_get data (js ''choices''))) (js ''message''))
                                        (js ''content''))
                                  (JStr []),
                        usage = js_get data (js ''usage'')\<rparr>)))"

text \<open>\<^verbatim>\<open>async function callChatCompletion({provider, model, system, user, temperature=0.2})\<close>\<close>

definition callChatCompletion ::
  "env \<Rightarrow> (fetch_request \<Rightarrow> fetch_outcome) \<Rightarrow> chat_args \<Rightarrow> jserror + upstream"
where
  "callChatCompletion ev fetch a =
     (if provider a = js ''openrouter'' then
        chat_completion (OPENROUTER_API_KEY ev)
          (str_or (OPENROUTER_BASE_URL ev) (js ''https://openrouter.ai/api/v1''))
          (js ''Server missing OPENROUTER_API_KEY'') fetch a
      else if provider a = js ''openai'' then
        chat_completion (OPENAI_API_KEY ev)
          (str_or (OPENAI_BASE_URL ev) (js ''https://api.openai.com/v1''))
          (js ''Server missing OPENAI_API_KEY'') fetch a
      else Inl (Error (js ''Unknown AI_PROVIDER'')))"

section \<open>JSON extractor\<close>

text \<open>
  \<^verbatim>\<open>s.match(/\{[\s\S]*\}/)\<close>: the match starts at the first opening brace and, the star
  being greedy, ends at the last closing brace after it; there is none when no closing
  brace follows the first opening one.
\<close>

definition match_braces :: "jstring \<Rightarrow> jstring option" where
  "match_braces s =
     (case dropWhile (\<lambda>c. c \<noteq> 0x7B) s of
        [] \<Rightarrow> None
      | c # cs \<Rightarrow>
          (case rev (dropWhile (\<lambda>d. d \<noteq> 0x7D) (rev cs)) of
             [] \<Rightarrow> None
           | inner \<Rightarrow> Some (c # inner)))"

text \<open>\<^verbatim>\<open>function extractJson(raw)\<close>, lines 251-265; the result \<open>JNull\<close> is \<open>null\<close>.\<close>

definition extractJson :: "jsval \<Rightarrow> jserror + jsval" where
  "extractJson rw =
     bind (toString (js_or rw (JStr [])))
       (\<lambda>t. let s = trim t
            in if s = [] then Inr JNull
               else
                 (let direct = safeJsonParse s
                  in if truthy direct then Inr direct
                     else
                       (case match_braces s of
                          None \<Rightarrow> Inr JNull
                        | Some m \<Rightarrow>
                            (let inner = safeJsonParse m
                             in if truthy inner then Inr inner else Inr JNull))))"

section \<open>Request handler\<close>

record event =
  httpMethod :: jstring
  event_headers :: "(jstring \<rightharpoonup> jstring) option"
  event_body :: "jstring option"

record response =
  statusCode :: int
  headers :: "(jstring \<times> jstring) list"
  body :: jstring

text \<open>
  What a request can change: the buckets of the rate limiter, and the log of the calls
  of \<open>callChatCompletion\<close>. The network answers the \<open>i\<close>-th call of the log with
  \<open>net i\<close>.
\<close>

record world =
  buckets :: buckets
  calls :: "chat_args list"

type_synonym network = "nat \<Rightarrow> fetch_request \<Rightarrow> fetch_outcome"

record run_result = upstream +
  parsed :: jsval

text \<open>\<^verbatim>\<open>async function run(modelName)\<close>, lines 308-316.\<close>

definition run ::
  "env \<Rightarrow> network \<Rightarrow> jstring \<Rightarrow> prompts \<Rightarrow> jsval \<Rightarrow> jstring \<Rightarrow> world \<Rightarrow> (jserror + run_result) \<times> world"
where
  "run ev net prov ps temp modelName w =
     (let a = \<lparr>system = system ps, user = user ps, provider = prov, model = modelName,
                temperature = temp\<rparr>
      in (bind (callChatCompletion ev (net (length (calls w))) a)
            (\<lambda>out.
               bind (extractJson (raw out))
                 (\<lambda>p. if \<not> truthy p then
                        bind (clampString (raw out) 50000)
                          (\<lambda>c. Inr \<lparr>raw = raw out, usage = usage out,
                                     parsed = JObj [(js ''raw'', JStr c)]\<rparr>)
                      else Inr \<lparr>raw = raw out, usage = usage out, parsed = p\<rparr>)),
          w\<lparr>calls := calls w @ [a]\<rparr>))"

definition error_body :: "jstring \<Rightarrow> jstring" where
  "error_body msg = JSON_stringify (JObj [(js ''ok'', JBool False), (js ''error'', JStr msg)])"

text \<open>The response of lines 327-338.\<close>

definition respond_200 ::
  "(jstring \<times> jstring) list \<Rightarrow> jstring \<Rightarrow> jstring \<Rightarrow> jstring \<Rightarrow> run_result \<Rightarrow> response"
where
  "respond_200 hs task prov primary result =
     \<lparr>statusCode = 200, headers = hs,
      body = JSON_stringify (JObj
        [(js ''ok'', JBool True),
         (js ''task'', JStr task),
         (js ''provider'', JStr prov),
         (js ''model_used'', JStr primary),
         (js ''result'', parsed result),
         (js ''usage'', js_or (usage result) JNull)])\<rparr>"

text \<open>
  Lines 268-269: the headers of every response, from the \<open>origin\<close> (or \<open>Origin\<close>) header of
  the request, read with \<^verbatim>\<open>?.\<close>.
\<close>

definition response_headers :: "event \<Rightarrow> (jstring \<times> jstring) list" where
  "response_headers event =
     (let origin = (case event_headers event of
                      None \<Rightarrow> None
                    | Some h \<Rightarrow> opt_or (h (js ''origin'')) (h (js ''Origin'')))
      in corsHeaders origin @ [(js ''Content-Type'', js ''application/json; charset=utf-8'')])"

text \<open>Line 278: the client identifier, from the headers \<open>h\<close> of the request.\<close>

definition client_ip :: "(jstring \<rightharpoonup> jstring) \<Rightarrow> jstring" where
  "client_ip h =
     str_or (opt_or (opt_or (h (js ''x-nf-client-connection-ip'')) (h (js ''client-ip'')))
                    (h (js ''x-forwarded-for'')))
            (js ''unknown'')"

text \<open>
  The \<open>try\<close> block of lines 318-345: the primary model, on any exception the fallback
  model, on any exception of that the response 502. No exception leaves the block.
\<close>

definition try_models ::
  "env \<Rightarrow> network \<Rightarrow> (jstring \<times> jstring) list \<Rightarrow> jstring \<Rightarrow> jstring \<Rightarrow> prompts \<Rightarrow> jsval \<Rightarrow>
   jstring \<Rightarrow> jstring \<Rightarrow> world \<Rightarrow> response \<times> world"
where
  "try_models ev net hs task prov ps temp primary fallback w =
     (case run ev net prov ps temp primary w of
        (Inr result, w2) \<Rightarrow> (respond_200 hs task prov primary result, w2)
      | (Inl e1, w2) \<Rightarrow>
          (case run ev net prov ps temp fallback w2 of
             (Inr result, w3) \<Rightarrow> (respond_200 hs task prov primary result, w3)
           | (Inl e2, w3) \<Rightarrow>
               (\<lparr>statusCode = 502, headers = hs,
                 body = JSON_stringify (JObj
                   [(js ''ok'', JBool False),
                    (js ''error'', JStr (js ''AI upstream error'')),
                    (js ''details'', JStr (String_error e2))])\<rparr>,
                w3)))"

text \<open>
  \<^verbatim>\<open>exports.handler = async (event) => ...\<close>, lines 267-346, up to the \<open>try\<close> block.
  \<open>Inl e\<close> is a rejected promise: the exception \<open>e\<close> has left the handler. \<open>t\<close> is the
  value of \<open>Date.now()\<close>.
\<close>

definition handler :: "env \<Rightarrow> network \<Rightarrow> int \<Rightarrow> event \<Rightarrow> world \<Rightarrow> (jserror + response) \<times> world" where
  "handler ev net t event w =
     (let hs = response_headers event
      in if httpMethod event = js ''OPTIONS'' then
           (Inr \<lparr>statusCode = 204, headers = hs, body = []\<rparr>, w)
         else if httpMethod event \<noteq> js ''POST'' then
           (Inr \<lparr>statusCode = 405, headers = hs, body = error_body (js ''Method Not Allowed'')\<rparr>, w)
         else
           (case event_headers event of
              None \<Rightarrow>
                (Inl (TypeError (js ''Cannot read properties of undefined (reading 'x-nf-client-connection-ip')'')), w)
            | Some h \<Rightarrow>
                (let ip = client_ip h;
                     allowed = fst (rateLimit t ip (buckets w));
                     w1 = w\<lparr>buckets := snd (rateLimit t ip (buckets w))\<rparr>
                 in if \<not> allowed then
                      (Inr \<lparr>statusCode = 429, headers = hs, body = error_body (js ''Rate limit exceeded'')\<rparr>, w1)
                    else
                      (let rawBody = str_or (event_body event) []
                       in if length rawBody > MAX_BODY_CHARS then
                            (Inr \<lparr>statusCode = 413, headers = hs, body = error_body (js ''Payload too large'')\<rparr>, w1)
                          else
                            (let req = safeJsonParse rawBody
                             in if \<not> truthy req then
                                  (Inr \<lparr>statusCode = 400, headers = hs, body = error_body (js ''Invalid JSON'')\<rparr>, w1)
                                else
                                  (case toString (js_or (js_get req (js ''task'')) (JStr [])) of
                                     Inl e \<Rightarrow> (Inl e, w1)
                                   | Inr task0 \<Rightarrow>
                                       (let task = trim task0;
                                            payload = js_or (js_get req (js ''payload'')) (JObj []);
                                            meta = js_or (js_get req (js ''meta'')) (JObj [])
                                        in (case buildPrompts task payload meta of
                                              Inl e \<Rightarrow> (Inl e, w1)
                                            | Inr None \<Rightarrow>
                                                (Inr \<lparr>statusCode = 400, headers = hs,
                                                      body = error_body (js ''Unknown task'')\<rparr>, w1)
                                            | Inr (Some ps) \<Rightarrow>
                                                (let prov = toLowerCase (str_or (AI_PROVIDER ev) (js ''openrouter''));
                                                     primary = str_or (MODEL_TEXT ev) (js ''google/gemma-3-12b-it:free'');
                                                     fallback = str_or (MODEL_TEXT_FALLBACK ev) (js ''google/gemma-3-4b-it:free'');
                                                     temp = (case js_get payload (js ''temperature'') of
                                                               JNum m e \<Rightarrow> JNum m e
                                                             | _ \<Rightarrow> JNum 2 (- 1))
                                                 in (case try_models ev net hs task prov ps temp primary fallback w1 of
                                                       (r, w2) \<Rightarrow> (Inr r, w2)))))))))))"

section \<open>Example inputs\<close>

text \<open>
  A configuration with the OpenRouter key set and every other variable unset, a process
  that has served no request yet, a POST from a client with the given forwarded
  address, and a network on which every request fails.
\<close>

definition example_env :: env where
  "example_env =
     \<lparr>AI_PROVIDER = None, OPENROUTER_API_KEY = Some (js ''secret''), OPENROUTER_BASE_URL = None,
      OPENAI_API_KEY = None, OPENAI_BASE_URL = None, MODEL_TEXT = None, MODEL_TEXT_FALLBACK = None\<rparr>"

definition fresh_world :: world where
  "fresh_world = \<lparr>buckets = Map.empty, calls = []\<rparr>"

definition busy_world :: world where
  "busy_world = \<lparr>buckets = [js ''10.0.0.7'' \<mapsto> \<lparr>start = 0, count = 40\<rparr>], calls = []\<rparr>"

definition post_from :: "jstring \<Rightarrow> jstring \<Rightarrow> event" where
  "post_from ip b =
     \<lparr>httpMethod = js ''POST'', event_headers = Some [js ''x-forwarded-for'' \<mapsto> ip],
      event_body = Some b\<rparr>"

definition no_network :: network where
  "no_network i r = Throws (TypeError (js ''fetch failed''))"

text \<open>A network that answers the first call with status 500 and every later call with a completion whose content is \<^verbatim>\<open>{}\<close>.\<close>

definition failing_then_ok :: network where
  "failing_then_ok i r =
     (if i = 0 then Responds 500 (js ''overloaded'')
      else Responds 200 (js ''{\"choices\":[{\"message\":{\"content\":\"{}\"}}]}''))"


definition some_prompts :: prompts where
  "some_prompts = \<lparr>system = js ''Output JSON only.'', user = js ''{}''\<rparr>"

section \<open>Basic facts\<close>

lemma unat_js_unit: "unat (of_nat (of_char c) :: 16 word) = of_char c"
proof -
  have "(of_char c :: nat) mod 256 < 256" by (rule mod_less_divisor) simp
  hence "(of_char c :: nat) < 256" by simp
  hence "(of_char c :: nat) < 65536" by arith
  thus ?thesis by (simp add: unat_of_nat)
qed

lemma js_inject [simp]: "js a = js b \<longleftrightarrow> a = b"
proof -
  have inj: "inj (\<lambda>c::char. (of_nat (of_char c) :: 16 word))"
  proof (rule injI)
    fix x y :: char
    assume "(of_nat (of_char x) :: 16 word) = of_nat (of_char y)"
    hence "unat (of_nat (of_char x) :: 16 word) = unat (of_nat (of_char y) :: 16 word)" by simp
    hence "(of_char x :: nat) = of_char y" by (simp only: unat_js_unit)
    thus "x = y" by simp
  qed
  show ?thesis
    unfolding js_def using inj by (simp add: inj_map_eq_map)
qed

lemma js_Nil [simp]: "js s = [] \<longleftrightarrow> s = []" "[] = js s \<longleftrightarrow> s = []"
  by (auto simp add: js_def)

lemma length_js [simp]: "length (js s) = length s"
  by (simp add: js_def)

lemma js_append: "js a @ js b = js (a @ b)"
  by (simp add: js_def)

subsection \<open>The language test\<close>

lemma lower_unit_e: "lower_unit a = 0x65 \<longleftrightarrow> a = 0x65 \<or> a = 0x45"
proof -
  have split: "(0x65 :: 16 word) = 0x45 + 0x20" by simp
  have shift: "a + 0x20 = 0x65 \<longleftrightarrow> a = 0x45"
    by (simp only: split add_right_cancel)
  show ?thesis
    using shift by (auto simp add: lower_unit_def)
qed

lemma lower_unit_n: "lower_unit a = 0x6E \<longleftrightarrow> a = 0x6E \<or> a = 0x4E"
proof -
  have split: "(0x6E :: 16 word) = 0x4E + 0x20" by simp
  have shift: "a + 0x20 = 0x6E \<longleftrightarrow> a = 0x4E"
    by (simp only: split add_right_cancel)
  show ?thesis
    using shift by (auto simp add: lower_unit_def)
qed

lemma js_en: "js ''en'' = [0x65, 0x6E]"
  by (simp add: js_def)

text \<open>The test of line 75 is a test of the first two code units, in either case.\<close>

lemma startsWith_en:
  "startsWith (toLowerCase l) (js ''en'')
     \<longleftrightarrow> (\<exists>a b r. l = a # b # r \<and> (a = 0x65 \<or> a = 0x45) \<and> (b = 0x6E \<or> b = 0x4E))"
proof (cases l)
  case Nil
  then show ?thesis by (simp add: startsWith_def toLowerCase_def js_en)
next
  case (Cons a l')
  show ?thesis
  proof (cases l')
    case Nil
    then show ?thesis using Cons by (simp add: startsWith_def toLowerCase_def js_en)
  next
    case (Cons b r)
    then show ?thesis
      using \<open>l = a # l'\<close>
      by (simp add: startsWith_def toLowerCase_def js_en lower_unit_e lower_unit_n)
  qed
qed

lemma ask_variants_differ: "ask_system (js ''ar'') \<noteq> ask_system (js ''en'')"
  by (simp add: ask_system_def)

lemma task_prompts_system:
  assumes "task_prompts lang task payload = Inr (Some p)"
  shows "system p =
     (if task = js ''panorama_json_to_report'' then panorama_system lang
      else if task = js ''ceph_treatment_planner'' then ceph_system lang
      else if task = js ''voice_to_report'' then voice_system lang
      else ask_system lang)"
  using assms
  by (auto simp add: task_prompts_def panorama_prompts_def ceph_prompts_def voice_prompts_def
        ask_prompts_def bind_def Let_def split: if_splits sum.splits)

subsection \<open>Example requests\<close>

lemma client_ip_forwarded:
  "ip \<noteq> [] \<Longrightarrow> client_ip [js ''x-forwarded-for'' \<mapsto> ip] = ip"
  by (simp add: client_ip_def opt_or_def str_or_def)

lemma first_call_allowed: "fst (rateLimit t ip Map.empty) = True"
  by (simp add: rateLimit_def RATE_max_def RATE_windowMs_def Let_def)

lemma parse_malformed: "JSON_parse (js ''{oops'') = None"
  by code_simp

subsection \<open>The upstream call\<close>

lemma call_openrouter:
  assumes "provider a = js ''openrouter''"
  shows "callChatCompletion ev fetch a
    = chat_completion (OPENROUTER_API_KEY ev)
          (str_or (OPENROUTER_BASE_URL ev) (js ''https://openrouter.ai/api/v1''))
          (js ''Server missing OPENROUTER_API_KEY'') fetch a"
  using assms by (simp add: callChatCompletion_def)

lemma call_unknown_provider:
  assumes "provider a \<noteq> js ''openrouter''" and "provider a \<noteq> js ''openai''"
  shows "callChatCompletion ev fetch a = Inl (Error (js ''Unknown AI_PROVIDER''))"
  using assms by (simp add: callChatCompletion_def)

lemma chat_completion_missing_key:
  assumes "str_or apiKey [] = []"
  shows "chat_completion apiKey baseUrl missing fetch a = Inl (Error missing)"
  using assms by (simp add: chat_completion_def)

lemma chat_completion_throws:
  assumes "str_or apiKey [] \<noteq> []" and "\<And>r. fetch r = Throws e"
  shows "chat_completion apiKey baseUrl missing fetch a = Inl e"
  using assms by (simp add: chat_completion_def)

lemma chat_completion_status:
  assumes "str_or apiKey [] \<noteq> []" and "\<And>r. fetch r = Responds status reply"
    and "\<not> (200 \<le> status \<and> status \<le> 299)"
  shows "\<exists>e. chat_completion apiKey baseUrl missing fetch a = Inl e"
  using assms by (simp add: chat_completion_def bind_def Let_def split: sum.splits)

lemma chat_completion_status_text:
  assumes "str_or apiKey [] \<noteq> []" and "\<And>r. fetch r = Responds status reply"
    and "\<not> (200 \<le> status \<and> status \<le> 299)" and "JSON_parse reply = None"
  shows "chat_completion apiKey baseUrl missing fetch a
     = Inl (Error (js ''Upstream error: '' @ Number_toString status 0))"
  using assms
  by (simp add: chat_completion_def bind_def Let_def safeJsonParse_def js_and_def js_or_def)

lemma chat_completion_ok:
  assumes "str_or apiKey [] \<noteq> []" and "\<And>r. fetch r = Responds status reply"
    and "200 \<le> status" and "status \<le> 299"
  shows "chat_completion apiKey baseUrl missing fetch a
     = Inr \<lparr>raw = js_or (js_get (js_get (index0 (js_get (safeJsonParse reply) (js ''choices'')))
                                      (js ''message''))
                             (js ''content''))
                     (JStr []),
            usage = js_get (safeJsonParse reply) (js ''usage'')\<rparr>"
  using assms by (simp add: chat_completion_def Let_def)

lemma run_calls:
  "calls (snd (run ev net prov ps temp m w))
    = calls w @ [\<lparr>system = system ps, user = user ps, provider = prov, model = m, temperature = temp\<rparr>]"
  by (simp add: run_def Let_def)

lemma run_buckets: "buckets (snd (run ev net prov ps temp m w)) = buckets w"
  by (simp add: run_def Let_def)

lemma run_call_fails:
  assumes "callChatCompletion ev (net (length (calls w)))
     \<lparr>system = system ps, user = user ps, provider = prov, model = m, temperature = temp\<rparr> = Inl e"
  shows "fst (run ev net prov ps temp m w) = Inl e"
  using assms by (simp add: run_def Let_def bind_def)

lemma no_network_run:
  "fst (run example_env no_network (js ''openrouter'') ps temp m w) = Inl (TypeError (js ''fetch failed''))"
  by (rule run_call_fails)
     (simp add: call_openrouter chat_completion_throws example_env_def str_or_def no_network_def)

subsection \<open>The handler up to the model calls\<close>

lemma handler_reaches_models:
  assumes "httpMethod event = js ''POST''"
    and "event_headers event = Some h"
    and "fst (rateLimit t (client_ip h) (buckets w))"
    and "length (str_or (event_body event) []) \<le> MAX_BODY_CHARS"
    and "JSON_parse (str_or (event_body event) []) = Some req"
    and "truthy req"
    and "toString (js_or (js_get req (js ''task'')) (JStr [])) = Inr task0"
    and "buildPrompts (trim task0) (js_or (js_get req (js ''payload'')) (JObj []))
           (js_or (js_get req (js ''meta'')) (JObj [])) = Inr (Some ps)"
  shows "handler ev net t event w =
     (case try_models ev net (response_headers event) (trim task0)
             (toLowerCase (str_or (AI_PROVIDER ev) (js ''openrouter''))) ps
             (case js_get (js_or (js_get req (js ''payload'')) (JObj [])) (js ''temperature'') of
                JNum m e \<Rightarrow> JNum m e | _ \<Rightarrow> JNum 2 (- 1))
             (str_or (MODEL_TEXT ev) (js ''google/gemma-3-12b-it:free''))
             (str_or (MODEL_TEXT_FALLBACK ev) (js ''google/gemma-3-4b-it:free''))
             (w\<lparr>buckets := snd (rateLimit t (client_ip h) (buckets w))\<rparr>) of
        (r, w2) \<Rightarrow> (Inr r, w2))"
proof -
  have post: "httpMethod event \<noteq> js ''OPTIONS''"
    using assms(1) by simp
  have req: "safeJsonParse (str_or (event_body event) []) = req"
    using assms(5) by (simp add: safeJsonParse_def)
  show ?thesis
    using assms(1-4,6-8) post req
    by (simp add: handler_def Let_def)
qed

subsection \<open>The result of a run\<close>





subsection \<open>Evaluated examples\<close>

lemma parse_hostile_task:
  "JSON_parse (js ''{\"task\":{\"toString\":1}}'')
     = Some (JObj [(js ''task'', JObj [(js ''toString'', JNum 1 0)])])"
  by code_simp

lemma parse_hostile_lang:
  "JSON_parse (js ''{\"lang\":{\"toString\":1}}'')
     = Some (JObj [(js ''lang'', JObj [(js ''toString'', JNum 1 0)])])"
  by code_simp

lemma parse_ask: "JSON_parse (js ''{\"task\":\"ask_radiology\"}'')
    = Some (JObj [(js ''task'', JStr (js ''ask_radiology''))])"
  by code_simp

lemma trim_ask: "trim (js ''ask_radiology'') = js ''ask_radiology''"
  by code_simp

lemma parse_overloaded: "JSON_parse (js ''overloaded'') = None"
  by code_simp

lemma parse_reply: "JSON_parse (js ''{\"choices\":[{\"message\":{\"content\":\"{}\"}}]}'')
   = Some (JObj [(js ''choices'', JArr [JObj [(js ''message'', JObj [(js ''content'', JStr (js ''{}''))])]])])"
  by code_simp

lemma extract_empty_object: "extractJson (JStr (js ''{}'')) = Inr (JObj [])"
  by code_simp

lemma status_500: "Number_toString 500 0 = js ''500''"
  by code_simp

lemma lang_default: "prompt_lang (JObj []) (JObj []) = Inr (js ''ar'')"
  by code_simp

lemma lower_openrouter: "toLowerCase (js ''openrouter'') = js ''openrouter''"
  by code_simp

lemma build_ask: "buildPrompts (js ''ask_radiology'') (JObj []) (JObj [])
   = Inr (Some \<lparr>system = ask_system (js ''ar''),
        user = JSON_stringify (JObj
                [(js ''instruction'', JStr (ask_instruction (js ''ar''))),
                 (js ''schema'', JObj
                    [(js ''answer'', JStr (js ''string'')),
                     (js ''follow_up_questions'', JStr (js ''array of strings''))]),
                 (js ''input'', JStr [])])\<rparr>)"
  by (simp add: buildPrompts_def task_prompts_def lang_default bind_def ask_prompts_def js_or_def)

lemma try_models_after_failure:
  assumes "fst (run ev net prov ps temp primary w) = Inl e1"
  shows "try_models ev net hs task prov ps temp primary fallback w =
     (case run ev net prov ps temp fallback (snd (run ev net prov ps temp primary w)) of
        (Inr result, w3) \<Rightarrow> (respond_200 hs task prov primary result, w3)
      | (Inl e2, w3) \<Rightarrow>
          (\<lparr>statusCode = 502, headers = hs,
            body = JSON_stringify (JObj
              [(js ''ok'', JBool False),
               (js ''error'', JStr (js ''AI upstream error'')),
               (js ''details'', JStr (String_error e2))])\<rparr>,
           w3))"
  using assms
  by (cases "run ev net prov ps temp primary w") (simp add: try_models_def)

lemma primary_fails:
  assumes "calls w = []"
  shows "fst (run example_env failing_then_ok (js ''openrouter'') ps temp m w)
     = Inl (Error (js ''Upstream error: 500''))"
proof -
  have "chat_completion (Some (js ''secret'')) (js ''https://openrouter.ai/api/v1'')
          (js ''Server missing OPENROUTER_API_KEY'') (failing_then_ok 0)
          \<lparr>system = system ps, user = user ps, provider = js ''openrouter'', model = m, temperature = temp\<rparr>
        = Inl (Error (js ''Upstream error: '' @ Number_toString 500 0))"
    by (rule chat_completion_status_text [where status = 500 and reply = "js ''overloaded''"])
       (simp_all add: str_or_def failing_then_ok_def parse_overloaded)
  thus ?thesis
    by (intro run_call_fails)
       (simp add: call_openrouter example_env_def str_or_def assms status_500 js_append)
qed

lemma fallback_succeeds:
  assumes "calls w \<noteq> []"
  shows "fst (run example_env failing_then_ok (js ''openrouter'') ps temp m w)
     = Inr \<lparr>raw = JStr (js ''{}''), usage = JUndefined, parsed = JObj []\<rparr>"
proof -
  have idx: "failing_then_ok (length (calls w)) = (\<lambda>r. Responds 200 (js ''{\"choices\":[{\"message\":{\"content\":\"{}\"}}]}''))"
    using assms by (auto simp add: failing_then_ok_def fun_eq_iff)
  have "chat_completion (Some (js ''secret'')) (js ''https://openrouter.ai/api/v1'')
          (js ''Server missing OPENROUTER_API_KEY'') (failing_then_ok (length (calls w)))
          \<lparr>system = system ps, user = user ps, provider = js ''openrouter'', model = m, temperature = temp\<rparr>
        = Inr \<lparr>raw = JStr (js ''{}''), usage = JUndefined\<rparr>"
    by (subst chat_completion_ok [where status = 200 and reply = "js ''{\"choices\":[{\"message\":{\"content\":\"{}\"}}]}''"])
       (simp_all add: idx str_or_def safeJsonParse_def parse_reply js_or_def)
  thus ?thesis
    by (simp add: run_def Let_def call_openrouter example_env_def str_or_def bind_def extract_empty_object)
qed







section \<open>Properties of the rate limiter\<close>

lemma rateLimit_in_window:
  assumes "bs ip = Some \<lparr>start = s, count = c\<rparr>" and "t - s \<le> RATE_windowMs"
  shows "rateLimit t ip bs = (c + 1 \<le> RATE_max, bs(ip \<mapsto> \<lparr>start = s, count = c + 1\<rparr>))"
  using assms by (simp add: rateLimit_def)

lemma rateLimit_opening:
  assumes "window_opens t ip bs"
  shows "rateLimit t ip bs = (True, bs(ip \<mapsto> \<lparr>start = t, count = 1\<rparr>))"
proof (cases "bs ip")
  case None
  then show ?thesis by (simp add: rateLimit_def RATE_max_def RATE_windowMs_def)
next
  case (Some b)
  then show ?thesis
    using assms by (cases b) (simp add: rateLimit_def window_opens_def RATE_max_def)
qed

lemma rateLimit_other_client:
  "ip' \<noteq> ip \<Longrightarrow> snd (rateLimit t ip' bs) ip = bs ip"
  by (simp add: rateLimit_def Let_def)

lemma rateLimit_calls_in_window:
  assumes "bs ip = Some \<lparr>start = s, count = c\<rparr>"
    and "\<forall>t \<in> set ts. t - s \<le> RATE_windowMs"
  shows "fst (rateLimit_calls ts ip bs) = map (\<lambda>i. c + 1 + int i \<le> RATE_max) [0..<length ts]"
  using assms
proof (induction ts arbitrary: bs c)
  case Nil
  then show ?case by simp
next
  case (Cons t ts)
  let ?bs1 = "bs(ip \<mapsto> \<lparr>start = s, count = c + 1\<rparr>)"
  have step: "rateLimit t ip bs = (c + 1 \<le> RATE_max, ?bs1)"
    using Cons.prems by (simp add: rateLimit_in_window)
  have rest: "fst (rateLimit_calls ts ip ?bs1)
      = map (\<lambda>i. (c + 1) + 1 + int i \<le> RATE_max) [0..<length ts]"
    using Cons.prems by (intro Cons.IH) simp_all
  have shift: "[0..<length (t # ts)] = 0 # map Suc [0..<length ts]"
    by (simp add: upt_conv_Cons map_Suc_upt del: upt_Suc)
  show ?case
    using step rest
    by (simp only: shift) (auto simp add: split_beta o_def)
qed

text \<open>
  C5. With window 60000 ms and max 40, for any client identifier: a call made when the
  client has no bucket yet, or when the time elapsed since the bucket's window start
  exceeds the window length, (re)starts the bucket (start set to now, count to zero before
  the increment) and is answered true; of the calls from that one on whose distance from
  the window start is at most the window length, the first 40 are answered true and the
  41st (and every later one) false.
\<close>

theorem rateLimit_window:
  assumes "window_opens t0 ip bs"
    and "\<forall>t \<in> set ts. t - t0 \<le> RATE_windowMs"
  shows "RATE_windowMs = 60000 \<and> RATE_max = 40
    \<and> rateLimit t0 ip bs = (True, bs(ip \<mapsto> \<lparr>start = t0, count = 1\<rparr>))
    \<and> fst (rateLimit_calls (t0 # ts) ip bs) = map (\<lambda>i. i < 40) [0..<Suc (length ts)]"
proof -
  let ?bs1 = "bs(ip \<mapsto> \<lparr>start = t0, count = 1\<rparr>)"
  have first: "rateLimit t0 ip bs = (True, ?bs1)"
    using assms(1) by (rule rateLimit_opening)
  have rest: "fst (rateLimit_calls ts ip ?bs1) = map (\<lambda>i. 1 + 1 + int i \<le> RATE_max) [0..<length ts]"
    using assms(2) by (intro rateLimit_calls_in_window) simp_all
  have shift: "[0..<Suc (length ts)] = 0 # map Suc [0..<length ts]"
    by (simp add: upt_conv_Cons map_Suc_upt del: upt_Suc)
  have seq: "fst (rateLimit_calls (t0 # ts) ip bs) = map (\<lambda>i. i < 40) [0..<Suc (length ts)]"
    using first rest
    by (simp only: shift) (auto simp add: split_beta o_def RATE_max_def)
  show ?thesis
    using first seq by (simp add: RATE_windowMs_def RATE_max_def)
qed

text \<open>
  An instance: the client's old bucket (start 0, count 57) is exhausted; the call at
  60001 ms resets it, 39 more calls up to 60000 ms later pass, the 41st is denied.
\<close>

theorem rateLimit_window_witness:
  "window_opens 60001 (js ''10.0.0.7'') [js ''10.0.0.7'' \<mapsto> \<lparr>start = 0, count = 57\<rparr>]
   \<and> list_all (\<lambda>t. t - 60001 \<le> RATE_windowMs) (replicate 40 120001)
   \<and> rateLimit 60001 (js ''10.0.0.7'') [js ''10.0.0.7'' \<mapsto> \<lparr>start = 0, count = 57\<rparr>]
       = (True, [js ''10.0.0.7'' \<mapsto> \<lparr>start = 60001, count = 1\<rparr>])
   \<and> fst (rateLimit_calls (60001 # replicate 40 120001) (js ''10.0.0.7'')
            [js ''10.0.0.7'' \<mapsto> \<lparr>start = 0, count = 57\<rparr>])
       = replicate 40 True @ [False]"
proof -
  have opens: "window_opens 60001 (js ''10.0.0.7'') [js ''10.0.0.7'' \<mapsto> \<lparr>start = 0, count = 57\<rparr>]"
    by (simp add: window_opens_def RATE_windowMs_def)
  have within: "\<forall>t \<in> set (replicate 40 120001). t - 60001 \<le> RATE_windowMs"
    by (simp add: RATE_windowMs_def)
  have answers: "map (\<lambda>i::nat. i < 40) [0..<Suc (length (replicate 40 (120001::int)))]
      = replicate 40 True @ [False]"
    by code_simp
  note w = rateLimit_window [OF opens within]
  have first: "rateLimit 60001 (js ''10.0.0.7'') [js ''10.0.0.7'' \<mapsto> \<lparr>start = 0, count = 57\<rparr>]
       = (True, [js ''10.0.0.7'' \<mapsto> \<lparr>start = 60001, count = 1\<rparr>])"
    using w [THEN conjunct2, THEN conjunct2, THEN conjunct1] by simp
  have seq: "fst (rateLimit_calls (60001 # replicate 40 120001) (js ''10.0.0.7'')
            [js ''10.0.0.7'' \<mapsto> \<lparr>start = 0, count = 57\<rparr>])
       = map (\<lambda>i::nat. i < 40) [0..<Suc (length (replicate 40 (120001::int)))]"
    using w [THEN conjunct2, THEN conjunct2, THEN conjunct2] .
  show ?thesis
    using opens within first seq [unfolded answers] by (simp add: list_all_iff)
qed

section \<open>Fallback policy\<close>

text \<open>
  C4. For every request whose primary model call fails, for whatever reason, the handler
  makes exactly one more call, with the fallback model and the same system prompt, user
  prompt and temperature (the log grows by exactly these two calls); if that call fails
  too, the response is 502 with \<open>ok:false\<close> and the stringified error as \<open>details\<close>. The
  reasons the claim lists make the call fail by the lemmas \<open>chat_completion_throws\<close>
  (timeout, network error), \<open>chat_completion_status\<close> (a status outside 200-299),
  \<open>chat_completion_missing_key\<close> and \<open>call_unknown_provider\<close>.
\<close>

theorem fallback_once:
  assumes "fst (run ev net prov ps temp primary w) = Inl e1"
  shows "calls (snd (try_models ev net hs task prov ps temp primary fallback w))
        = calls w @ [\<lparr>system = system ps, user = user ps, provider = prov, model = primary, temperature = temp\<rparr>,
                     \<lparr>system = system ps, user = user ps, provider = prov, model = fallback, temperature = temp\<rparr>]
    \<and> (case fst (run ev net prov ps temp fallback (snd (run ev net prov ps temp primary w))) of
         Inl e2 \<Rightarrow>
           fst (try_models ev net hs task prov ps temp primary fallback w)
             = \<lparr>statusCode = 502, headers = hs,
                body = JSON_stringify (JObj
                  [(js ''ok'', JBool False),
                   (js ''error'', JStr (js ''AI upstream error'')),
                   (js ''details'', JStr (String_error e2))])\<rparr>
       | Inr result \<Rightarrow>
           fst (try_models ev net hs task prov ps temp primary fallback w)
             = respond_200 hs task prov primary result)"
proof -
  obtain r1 w2 where p: "run ev net prov ps temp primary w = (r1, w2)"
    by (cases "run ev net prov ps temp primary w")
  obtain r2 w3 where f: "run ev net prov ps temp fallback w2 = (r2, w3)"
    by (cases "run ev net prov ps temp fallback w2")
  have r1: "r1 = Inl e1" using assms p by simp
  have c2: "calls w2 = calls w @ [\<lparr>system = system ps, user = user ps, provider = prov, model = primary, temperature = temp\<rparr>]"
    using run_calls [of ev net prov ps temp primary w] p by simp
  have c3: "calls w3 = calls w2 @ [\<lparr>system = system ps, user = user ps, provider = prov, model = fallback, temperature = temp\<rparr>]"
    using run_calls [of ev net prov ps temp fallback w2] f by simp
  show ?thesis
    using p f r1 c2 c3 by (cases r2) (simp_all add: try_models_def)
qed

text \<open>An instance: the network is down for both calls.\<close>

theorem fallback_once_witness:
  "fst (run example_env no_network (js ''openrouter'') some_prompts (JNum 2 (- 1)) (js ''model-a'') fresh_world)
     = Inl (TypeError (js ''fetch failed''))
   \<and> calls (snd (try_models example_env no_network [] (js ''ask_radiology'') (js ''openrouter'') some_prompts
                   (JNum 2 (- 1)) (js ''model-a'') (js ''model-b'') fresh_world))
     = [\<lparr>system = js ''Output JSON only.'', user = js ''{}'', provider = js ''openrouter'',
          model = js ''model-a'', temperature = JNum 2 (- 1)\<rparr>,
        \<lparr>system = js ''Output JSON only.'', user = js ''{}'', provider = js ''openrouter'',
          model = js ''model-b'', temperature = JNum 2 (- 1)\<rparr>]
   \<and> fst (try_models example_env no_network [] (js ''ask_radiology'') (js ''openrouter'') some_prompts
             (JNum 2 (- 1)) (js ''model-a'') (js ''model-b'') fresh_world)
     = \<lparr>statusCode = 502, headers = [],
        body = JSON_stringify (JObj
          [(js ''ok'', JBool False),
           (js ''error'', JStr (js ''AI upstream error'')),
           (js ''details'', JStr (js ''TypeError: fetch failed''))])\<rparr>"
proof -
  have primary: "fst (run example_env no_network (js ''openrouter'') some_prompts (JNum 2 (- 1)) (js ''model-a'') fresh_world)
     = Inl (TypeError (js ''fetch failed''))"
    by (rule no_network_run)
  have details: "String_error (TypeError (js ''fetch failed'')) = js ''TypeError: fetch failed''"
    by (simp add: TypeError_def js_append)
  show ?thesis
    using fallback_once [OF primary, of "[]" "js ''ask_radiology''" "js ''model-b''"] primary
    by (simp add: no_network_run details some_prompts_def fresh_world_def)
qed

section \<open>Body size\<close>

text \<open>
  C9, as amended. For every POST that passes the rate-limit check: a raw body of more
  than 250000 code units is answered 413 whatever it contains, so the size is checked
  before the body is parsed; a body within the cap that is not valid JSON is answered
  400. In both cases no model call is made.
\<close>

theorem body_size_before_parsing:
  assumes "httpMethod event = js ''POST''"
    and "event_headers event = Some h"
    and "fst (rateLimit t (client_ip h) (buckets w))"
  shows "MAX_BODY_CHARS = 250000
    \<and> (length (str_or (event_body event) []) > 250000 \<longrightarrow>
         handler ev net t event w
           = (Inr \<lparr>statusCode = 413, headers = response_headers event,
                   body = error_body (js ''Payload too large'')\<rparr>,
              w\<lparr>buckets := snd (rateLimit t (client_ip h) (buckets w))\<rparr>))
    \<and> (length (str_or (event_body event) []) \<le> 250000
         \<and> JSON_parse (str_or (event_body event) []) = None \<longrightarrow>
         handler ev net t event w
           = (Inr \<lparr>statusCode = 400, headers = response_headers event,
                   body = error_body (js ''Invalid JSON'')\<rparr>,
              w\<lparr>buckets := snd (rateLimit t (client_ip h) (buckets w))\<rparr>))"
proof -
  have post: "httpMethod event \<noteq> js ''OPTIONS''"
    using assms(1) by simp
  show ?thesis
    using assms post
    by (simp add: handler_def Let_def MAX_BODY_CHARS_def safeJsonParse_def)
qed


text \<open>
  An instance: a body of 250001 code units, and the malformed body \<^verbatim>\<open>{oops\<close>, each as the
  first request of a client.
\<close>

theorem body_size_before_parsing_witness:
  "length (replicate 250001 (0x78 :: 16 word)) > 250000
   \<and> handler example_env no_network 0 (post_from (js ''10.0.0.7'') (replicate 250001 0x78)) fresh_world
       = (Inr \<lparr>statusCode = 413,
               headers = response_headers (post_from (js ''10.0.0.7'') (replicate 250001 0x78)),
               body = error_body (js ''Payload too large'')\<rparr>,
          \<lparr>buckets = [js ''10.0.0.7'' \<mapsto> \<lparr>start = 0, count = 1\<rparr>], calls = []\<rparr>)
   \<and> JSON_parse (js ''{oops'') = None
   \<and> handler example_env no_network 0 (post_from (js ''10.0.0.7'') (js ''{oops'')) fresh_world
       = (Inr \<lparr>statusCode = 400,
               headers = response_headers (post_from (js ''10.0.0.7'') (js ''{oops'')),
               body = error_body (js ''Invalid JSON'')\<rparr>,
          \<lparr>buckets = [js ''10.0.0.7'' \<mapsto> \<lparr>start = 0, count = 1\<rparr>], calls = []\<rparr>)"
proof -
  let ?h = "[js ''10.0.0.7'' \<mapsto> \<lparr>start = (0::int), count = (1::int)\<rparr>]"
  have ip: "client_ip [js ''x-forwarded-for'' \<mapsto> js ''10.0.0.7''] = js ''10.0.0.7''"
    by (simp add: client_ip_forwarded)
  have allowed: "\<And>b. fst (rateLimit 0 (client_ip [js ''x-forwarded-for'' \<mapsto> js ''10.0.0.7''])
                        (buckets fresh_world))"
    by (simp add: ip fresh_world_def first_call_allowed)
  have bucket: "snd (rateLimit 0 (js ''10.0.0.7'') Map.empty) = [js ''10.0.0.7'' \<mapsto> \<lparr>start = 0, count = 1\<rparr>]"
    by (simp add: rateLimit_def RATE_max_def RATE_windowMs_def Let_def)
  have big: "handler example_env no_network 0 (post_from (js ''10.0.0.7'') (replicate 250001 0x78)) fresh_world
       = (Inr \<lparr>statusCode = 413,
               headers = response_headers (post_from (js ''10.0.0.7'') (replicate 250001 0x78)),
               body = error_body (js ''Payload too large'')\<rparr>,
          \<lparr>buckets = [js ''10.0.0.7'' \<mapsto> \<lparr>start = 0, count = 1\<rparr>], calls = []\<rparr>)"
    using body_size_before_parsing
      [of "post_from (js ''10.0.0.7'') (replicate 250001 0x78)" "[js ''x-forwarded-for'' \<mapsto> js ''10.0.0.7'']"
          0 fresh_world example_env no_network]
      allowed
    by (simp add: post_from_def str_or_def ip bucket fresh_world_def)
  have bad: "handler example_env no_network 0 (post_from (js ''10.0.0.7'') (js ''{oops'')) fresh_world
       = (Inr \<lparr>statusCode = 400,
               headers = response_headers (post_from (js ''10.0.0.7'') (js ''{oops'')),
               body = error_body (js ''Invalid JSON'')\<rparr>,
          \<lparr>buckets = [js ''10.0.0.7'' \<mapsto> \<lparr>start = 0, count = 1\<rparr>], calls = []\<rparr>)"
    using body_size_before_parsing
      [of "post_from (js ''10.0.0.7'') (js ''{oops'')" "[js ''x-forwarded-for'' \<mapsto> js ''10.0.0.7'']"
          0 fresh_world example_env no_network]
      allowed
    by (simp add: post_from_def str_or_def ip bucket fresh_world_def parse_malformed)
  show ?thesis
    using big bad parse_malformed by simp
qed

text \<open>
  The claim as stated, for every POST with a body over the cap, fails where the rate
  limiter denies the request first: the 41st request of a window is answered 429 also
  when its body has 250001 code units.
\<close>

theorem oversized_body_rate_limited:
  "length (replicate 250001 (0x78 :: 16 word)) > 250000
   \<and> httpMethod (post_from (js ''10.0.0.7'') (replicate 250001 0x78)) = js ''POST''
   \<and> fst (handler example_env no_network 1000 (post_from (js ''10.0.0.7'') (replicate 250001 0x78)) busy_world)
       = Inr \<lparr>statusCode = 429,
              headers = response_headers (post_from (js ''10.0.0.7'') (replicate 250001 0x78)),
              body = error_body (js ''Rate limit exceeded'')\<rparr>"
  by (simp add: handler_def post_from_def busy_world_def client_ip_def opt_or_def str_or_def rateLimit_def
      RATE_windowMs_def RATE_max_def Let_def)

section \<open>The model reported by a successful response\<close>

text \<open>
  C1 says that the \<open>model_used\<close> field of a 200 response names the model of the attempt
  that succeeded. The code writes the primary model's name in both returns of line 334.
  In the request below the primary call is answered with status 500 and the fallback
  call succeeds: the log holds the two calls, the second with the fallback model
  \<open>google/gemma-3-4b-it:free\<close>, and the body reports \<open>google/gemma-3-12b-it:free\<close>.
\<close>

theorem model_used_after_fallback:
  "fst (handler example_env failing_then_ok 0
          (post_from (js ''10.0.0.7'') (js ''{\"task\":\"ask_radiology\"}'')) fresh_world)
     = Inr \<lparr>statusCode = 200,
            headers = response_headers (post_from (js ''10.0.0.7'') (js ''{\"task\":\"ask_radiology\"}'')),
            body = JSON_stringify (JObj
              [(js ''ok'', JBool True),
               (js ''task'', JStr (js ''ask_radiology'')),
               (js ''provider'', JStr (js ''openrouter'')),
               (js ''model_used'', JStr (js ''google/gemma-3-12b-it:free'')),
               (js ''result'', JObj []),
               (js ''usage'', JNull)])\<rparr>
   \<and> map model (calls (snd (handler example_env failing_then_ok 0
          (post_from (js ''10.0.0.7'') (js ''{\"task\":\"ask_radiology\"}'')) fresh_world)))
     = [js ''google/gemma-3-12b-it:free'', js ''google/gemma-3-4b-it:free'']"
proof -
  let ?event = "post_from (js ''10.0.0.7'') (js ''{\"task\":\"ask_radiology\"}'')"
  let ?w1 = "fresh_world\<lparr>buckets := snd (rateLimit 0 (client_ip [js ''x-forwarded-for'' \<mapsto> js ''10.0.0.7'']) (buckets fresh_world))\<rparr>"
  have w1: "?w1 = \<lparr>buckets = [js ''10.0.0.7'' \<mapsto> \<lparr>start = 0, count = 1\<rparr>], calls = []\<rparr>"
    by (simp add: fresh_world_def client_ip_forwarded rateLimit_def RATE_max_def RATE_windowMs_def Let_def)
  have reach: "handler example_env failing_then_ok 0 ?event fresh_world =
     (case try_models example_env failing_then_ok (response_headers ?event) (js ''ask_radiology'')
             (js ''openrouter'') 
             \<lparr>system = ask_system (js ''ar''),
        user = JSON_stringify (JObj
                [(js ''instruction'', JStr (ask_instruction (js ''ar''))),
                 (js ''schema'', JObj
                    [(js ''answer'', JStr (js ''string'')),
                     (js ''follow_up_questions'', JStr (js ''array of strings''))]),
                 (js ''input'', JStr [])])\<rparr>
             (JNum 2 (- 1))
             (js ''google/gemma-3-12b-it:free'') (js ''google/gemma-3-4b-it:free'')
             \<lparr>buckets = [js ''10.0.0.7'' \<mapsto> \<lparr>start = 0, count = 1\<rparr>], calls = []\<rparr> of
        (r, w2) \<Rightarrow> (Inr r, w2))"
    by (subst handler_reaches_models
          [where h = "[js ''x-forwarded-for'' \<mapsto> js ''10.0.0.7'']"
             and req = "JObj [(js ''task'', JStr (js ''ask_radiology''))]"
             and ?task0.0 = "js ''ask_radiology''"])
       (simp_all add: post_from_def str_or_def parse_ask js_or_def trim_ask build_ask example_env_def
          lower_openrouter MAX_BODY_CHARS_def client_ip_forwarded first_call_allowed fresh_world_def
          rateLimit_def RATE_max_def RATE_windowMs_def Let_def)
  let ?ps = "\<lparr>system = ask_system (js ''ar''),
        user = JSON_stringify (JObj
                [(js ''instruction'', JStr (ask_instruction (js ''ar''))),
                 (js ''schema'', JObj
                    [(js ''answer'', JStr (js ''string'')),
                     (js ''follow_up_questions'', JStr (js ''array of strings''))]),
                 (js ''input'', JStr [])])\<rparr>"
  let ?w = "\<lparr>buckets = [js ''10.0.0.7'' \<mapsto> \<lparr>start = 0, count = 1\<rparr>], calls = []\<rparr>"
  let ?first = "run example_env failing_then_ok (js ''openrouter'') ?ps (JNum 2 (- 1))
                  (js ''google/gemma-3-12b-it:free'') ?w"
  let ?second = "run example_env failing_then_ok (js ''openrouter'') ?ps (JNum 2 (- 1))
                  (js ''google/gemma-3-4b-it:free'') (snd ?first)"
  have one: "fst ?first = Inl (Error (js ''Upstream error: 500''))"
    by (rule primary_fails) simp
  have log1: "calls (snd ?first) \<noteq> []"
    by (simp add: run_calls)
  have two: "fst ?second = Inr \<lparr>raw = JStr (js ''{}''), usage = JUndefined, parsed = JObj []\<rparr>"
    using log1 by (rule fallback_succeeds)
  have log2: "map model (calls (snd ?second))
        = [js ''google/gemma-3-12b-it:free'', js ''google/gemma-3-4b-it:free'']"
    by (simp add: run_calls)
  have models: "try_models example_env failing_then_ok (response_headers ?event) (js ''ask_radiology'')
             (js ''openrouter'') ?ps (JNum 2 (- 1))
             (js ''google/gemma-3-12b-it:free'') (js ''google/gemma-3-4b-it:free'') ?w
      = (respond_200 (response_headers ?event) (js ''ask_radiology'') (js ''openrouter'')
           (js ''google/gemma-3-12b-it:free'')
           \<lparr>raw = JStr (js ''{}''), usage = JUndefined, parsed = JObj []\<rparr>, snd ?second)"
    using two by (subst try_models_after_failure [OF one]) (cases ?second, simp)
  show ?thesis
    using log2 by (simp only: reach models) (simp add: respond_200_def js_or_def)
qed

section \<open>Exceptions at the handler boundary\<close>

text \<open>
  C2 says that no exception leaves the handler. Only the model calls stand inside the
  \<open>try\<close> of lines 318-345. A POST whose JSON body gives \<open>task\<close> an object with an own
  property \<open>toString\<close> makes line 293 call a value that is not a function, and an event
  without \<open>headers\<close> makes line 278 read a property of \<open>undefined\<close> (line 268 reads the
  same object with \<^verbatim>\<open>?.\<close>): in both cases the TypeError is the handler's result.
\<close>

theorem exception_escapes_handler:
  "fst (handler example_env no_network 0
          (post_from (js ''10.0.0.7'') (js ''{\"task\":{\"toString\":1}}'')) fresh_world)
     = Inl (TypeError (js ''toString is not a function''))
   \<and> fst (handler example_env no_network 0
          \<lparr>httpMethod = js ''POST'', event_headers = None, event_body = Some (js ''{}'')\<rparr> fresh_world)
     = Inl (TypeError (js ''Cannot read properties of undefined (reading 'x-nf-client-connection-ip')''))"
  by (simp add: handler_def post_from_def fresh_world_def client_ip_forwarded first_call_allowed
      str_or_def MAX_BODY_CHARS_def safeJsonParse_def parse_hostile_task js_or_def Let_def)

section \<open>Exceptions of the prompt builder\<close>

text \<open>
  C7 says that the prompt builder never throws. Line 75 calls \<open>toString\<close> on the chosen
  \<open>lang\<close> value; for the \<open>meta\<close> object that \<open>JSON.parse\<close> makes of
  \<^verbatim>\<open>{"lang":{"toString":1}}\<close> that is a call of the number 1, and the builder throws a
  TypeError, for a known task as for any other.
\<close>

theorem buildPrompts_throws:
  "JSON_parse (js ''{\"lang\":{\"toString\":1}}'')
     = Some (JObj [(js ''lang'', JObj [(js ''toString'', JNum 1 0)])])
   \<and> buildPrompts (js ''ask_radiology'') (JObj [])
        (JObj [(js ''lang'', JObj [(js ''toString'', JNum 1 0)])])
     = Inl (TypeError (js ''toString is not a function''))
   \<and> buildPrompts (js ''no_such_task'') (JObj [])
        (JObj [(js ''lang'', JObj [(js ''toString'', JNum 1 0)])])
     = Inl (TypeError (js ''toString is not a function''))"
  by (simp add: parse_hostile_lang buildPrompts_def prompt_lang_def js_or_def bind_def)

section \<open>The result of a successful response\<close>




section \<open>Falsy JSON\<close>



section \<open>Locale of the prompts\<close>

text \<open>
  C3, as amended. For every task, payload and meta: the language value is \<open>meta.lang\<close> if
  that is truthy, else \<open>payload.lang\<close> if that is truthy, else \<open>ar\<close>; when the string form
  of that value starts with \<open>en\<close>, in either case of each letter, the prompt builder takes
  the English variants, and for any other value, including both fields absent, the
  Arabic ones. So \<open>payload.lang\<close> is consulted only when \<open>meta.lang\<close> is absent or falsy.
\<close>

theorem buildPrompts_language:
  assumes "toString (if truthy (js_get meta (js ''lang'')) then js_get meta (js ''lang'')
                     else if truthy (js_get payload (js ''lang'')) then js_get payload (js ''lang'')
                     else JStr (js ''ar'')) = Inr l"
  shows "buildPrompts task payload meta
      = task_prompts
          (if \<exists>a b r. l = a # b # r \<and> (a = 0x65 \<or> a = 0x45) \<and> (b = 0x6E \<or> b = 0x4E)
           then js ''en'' else js ''ar'')
          task payload"
proof -
  have chosen: "js_or (js_or (js_get meta (js ''lang'')) (js_get payload (js ''lang''))) (JStr (js ''ar''))
      = (if truthy (js_get meta (js ''lang'')) then js_get meta (js ''lang'')
         else if truthy (js_get payload (js ''lang'')) then js_get payload (js ''lang'')
         else JStr (js ''ar''))"
    by (simp add: js_or_def)
  have "prompt_lang payload meta
      = Inr (if startsWith (toLowerCase l) (js ''en'') then js ''en'' else js ''ar'')"
    unfolding prompt_lang_def chosen assms by (simp add: bind_def)
  then show ?thesis
    by (simp only: buildPrompts_def startsWith_en) (simp add: bind_def)
qed


text \<open>
  Instances: \<open>meta.lang\<close> = \<open>EN-us\<close> selects English whatever \<open>payload.lang\<close> is, and without
  either field the prompts are Arabic.
\<close>

theorem buildPrompts_language_witness:
  "toString (if truthy (js_get (JObj [(js ''lang'', JStr (js ''EN-us''))]) (js ''lang''))
             then js_get (JObj [(js ''lang'', JStr (js ''EN-us''))]) (js ''lang'')
             else if truthy (js_get (JObj [(js ''lang'', JStr (js ''ar''))]) (js ''lang''))
             then js_get (JObj [(js ''lang'', JStr (js ''ar''))]) (js ''lang'')
             else JStr (js ''ar'')) = Inr (js ''EN-us'')
   \<and> buildPrompts (js ''ask_radiology'') (JObj [(js ''lang'', JStr (js ''ar''))])
        (JObj [(js ''lang'', JStr (js ''EN-us''))])
     = task_prompts (js ''en'') (js ''ask_radiology'') (JObj [(js ''lang'', JStr (js ''ar''))])
   \<and> buildPrompts (js ''ask_radiology'') (JObj []) (JObj [])
     = task_prompts (js ''ar'') (js ''ask_radiology'') (JObj [])"
proof -
  have one: "toString (if truthy (js_get (JObj [(js ''lang'', JStr (js ''EN-us''))]) (js ''lang''))
             then js_get (JObj [(js ''lang'', JStr (js ''EN-us''))]) (js ''lang'')
             else if truthy (js_get (JObj [(js ''lang'', JStr (js ''ar''))]) (js ''lang''))
             then js_get (JObj [(js ''lang'', JStr (js ''ar''))]) (js ''lang'')
             else JStr (js ''ar'')) = Inr (js ''EN-us'')"
    by simp
  have two: "toString (if truthy (js_get (JObj []) (js ''lang'')) then js_get (JObj []) (js ''lang'')
             else if truthy (js_get (JObj []) (js ''lang'')) then js_get (JObj []) (js ''lang'')
             else JStr (js ''ar'')) = Inr (js ''ar'')"
    by simp
  have en: "\<exists>a b r. js ''EN-us'' = a # b # r \<and> (a = 0x65 \<or> a = 0x45) \<and> (b = 0x6E \<or> b = 0x4E)"
    by (simp add: js_def)
  have ar: "\<not> (\<exists>a b r. js ''ar'' = a # b # r \<and> (a = 0x65 \<or> a = 0x45) \<and> (b = 0x6E \<or> b = 0x4E))"
    by (simp add: js_def)
  show ?thesis
    using buildPrompts_language [OF one, of "js ''ask_radiology''"]
          buildPrompts_language [OF two, of "js ''ask_radiology''"] one en ar
    by (simp only: if_True if_False simp_thms)
qed

text \<open>
  The claim as stated, that English is selected whenever \<open>meta.lang\<close> or \<open>payload.lang\<close>
  starts with \<open>en\<close>, fails when \<open>meta.lang\<close> is another language: with \<open>meta.lang\<close> = \<open>ar\<close>
  and \<open>payload.lang\<close> = \<open>en\<close> the system prompt is the Arabic one.
\<close>

theorem payload_lang_ignored:
  "startsWith (toLowerCase (js ''en'')) (js ''en'')
   \<and> js_get (JObj [(js ''lang'', JStr (js ''en''))]) (js ''lang'') = JStr (js ''en'')
   \<and> map_sum id (map_option system)
        (buildPrompts (js ''ask_radiology'') (JObj [(js ''lang'', JStr (js ''en''))])
           (JObj [(js ''lang'', JStr (js ''ar''))]))
     = Inr (Some (ask_system (js ''ar'')))
   \<and> ask_system (js ''ar'') \<noteq> ask_system (js ''en'')"
proof -
  have en: "startsWith (toLowerCase (js ''en'')) (js ''en'')"
    by code_simp
  have ar: "\<not> startsWith (toLowerCase (js ''ar'')) (js ''en'')"
    by code_simp
  have "buildPrompts (js ''ask_radiology'') (JObj [(js ''lang'', JStr (js ''en''))])
           (JObj [(js ''lang'', JStr (js ''ar''))])
      = task_prompts (js ''ar'') (js ''ask_radiology'') (JObj [(js ''lang'', JStr (js ''en''))])"
    using ar by (simp add: buildPrompts_def prompt_lang_def js_or_def bind_def)
  then show ?thesis
    using en by (simp add: task_prompts_def ask_prompts_def bind_def js_or_def ask_variants_differ)
qed


end
